theory Spec2Isabelle
  imports Complex_Main "HOL-Library.AList"
begin

section \<open>Python values\<close>

text \<open>
  The engine exchanges JSON documents with its peers. A document is a value of \<open>json\<close>;
  a Python \<open>dict\<close> is an association list in insertion order (\<open>map_of\<close> looks a key
  up, \<open>AList.update\<close> stores one, \<open>AList.delete\<close> removes one). Numbers are reals:
  timestamps are read and compared, never rounded, so the rounding of Python's floats is
  not modelled.
\<close>

datatype json =
    JNull
  | JBool bool
  | JNum real
  | JStr string
  | JArr "json list"
  | JObj "(string \<times> json) list"

text \<open>
  The standard library's \<open>json.dumps\<close> and \<open>json.loads\<close> are parameters of the model:
  \<open>loads J s\<close> is \<open>None\<close> where \<open>json.loads(s)\<close> raises \<open>JSONDecodeError\<close>.
\<close>

record jsonlib =
  dumps :: "json \<Rightarrow> string"
  loads :: "string \<Rightarrow> json option"

text \<open>
  The exceptions the modelled code can meet, all of them derived from \<open>Exception\<close>,
  and the outcome of a fallible step.
\<close>

datatype exn =
    JSONDecodeError
  | AttributeError
  | ValueError
  | TypeError
  | OSError
  | HandlerError

datatype 'a outcome = Return 'a | Raise exn

text \<open>\<open>obj.get(key, default)\<close> on a dict.\<close>

definition dict_get :: "(string \<times> json) list \<Rightarrow> string \<Rightarrow> json \<Rightarrow> json" where
  "dict_get kvs k d = (case map_of kvs k of None \<Rightarrow> d | Some v \<Rightarrow> v)"

text \<open>Truth value of a Python object, and \<open>a or b\<close>.\<close>

fun truthy :: "json \<Rightarrow> bool" where
  "truthy JNull = False"
| "truthy (JBool b) = b"
| "truthy (JNum x) = (x \<noteq> 0)"
| "truthy (JStr s) = (s \<noteq> [])"
| "truthy (JArr xs) = (xs \<noteq> [])"
| "truthy (JObj kvs) = (kvs \<noteq> [])"

definition py_or :: "json \<Rightarrow> json \<Rightarrow> json" where
  "py_or a b = (if truthy a then a else b)"

text \<open>
  A \<open>char\<close> is a code point below 256, so a \<open>string\<close> is a Python \<open>str\<close> of the
  Latin-1 range; texts with other code points are outside the model. \<open>str.lower()\<close>
  there: the upper-case letters are A to Z and U+00C0 to U+00DE without the
  multiplication sign U+00D7, and the lower-case letter of each lies 32 code points above.
\<close>

definition upper_letters :: string where
  "upper_letters =
     ''ABCDEFGHIJKLMNOPQRSTUVWXYZ''
     @ [CHR 0xC0, CHR 0xC1, CHR 0xC2, CHR 0xC3, CHR 0xC4, CHR 0xC5, CHR 0xC6, CHR 0xC7,
        CHR 0xC8, CHR 0xC9, CHR 0xCA, CHR 0xCB, CHR 0xCC, CHR 0xCD, CHR 0xCE, CHR 0xCF,
        CHR 0xD0, CHR 0xD1, CHR 0xD2, CHR 0xD3, CHR 0xD4, CHR 0xD5, CHR 0xD6,
        CHR 0xD8, CHR 0xD9, CHR 0xDA, CHR 0xDB, CHR 0xDC, CHR 0xDD, CHR 0xDE]"

definition lower_letters :: string where
  "lower_letters =
     ''abcdefghijklmnopqrstuvwxyz''
     @ [CHR 0xE0, CHR 0xE1, CHR 0xE2, CHR 0xE3, CHR 0xE4, CHR 0xE5, CHR 0xE6, CHR 0xE7,
        CHR 0xE8, CHR 0xE9, CHR 0xEA, CHR 0xEB, CHR 0xEC, CHR 0xED, CHR 0xEE, CHR 0xEF,
        CHR 0xF0, CHR 0xF1, CHR 0xF2, CHR 0xF3, CHR 0xF4, CHR 0xF5, CHR 0xF6,
        CHR 0xF8, CHR 0xF9, CHR 0xFA, CHR 0xFB, CHR 0xFC, CHR 0xFD, CHR 0xFE]"

definition lower_char :: "char \<Rightarrow> char" where
  "lower_char c =
     (case map_of (zip upper_letters lower_letters) c of None \<Rightarrow> c | Some l \<Rightarrow> l)"

fun py_lower :: "json \<Rightarrow> json outcome" where
  "py_lower (JStr s) = Return (JStr (map lower_char s))"
| "py_lower _ = Raise AttributeError"

section \<open>Device messages (core/device\_communication.py)\<close>

datatype MessageType =
    COMMAND | RESPONSE | ACK
  | HEARTBEAT | STATUS
  | EVENT | ERROR
  | STREAM_START | STREAM_DATA | STREAM_END

fun MessageType_value :: "MessageType \<Rightarrow> string" where
  "MessageType_value COMMAND = ''command''"
| "MessageType_value RESPONSE = ''response''"
| "MessageType_value ACK = ''ack''"
| "MessageType_value HEARTBEAT = ''heartbeat''"
| "MessageType_value STATUS = ''status''"
| "MessageType_value EVENT = ''event''"
| "MessageType_value ERROR = ''error''"
| "MessageType_value STREAM_START = ''stream_start''"
| "MessageType_value STREAM_DATA = ''stream_data''"
| "MessageType_value STREAM_END = ''stream_end''"

definition MessageType_members :: "MessageType list" where
  "MessageType_members =
     [COMMAND, RESPONSE, ACK, HEARTBEAT, STATUS, EVENT, ERROR,
      STREAM_START, STREAM_DATA, STREAM_END]"

text \<open>\<open>MessageType(v)\<close>: the member whose value is \<open>v\<close>, \<open>ValueError\<close> when there is none.\<close>

fun MessageType_of :: "json \<Rightarrow> MessageType outcome" where
  "MessageType_of (JStr s) =
     (case find (\<lambda>m. MessageType_value m = s) MessageType_members of
        None \<Rightarrow> Raise ValueError | Some m \<Rightarrow> Return m)"
| "MessageType_of _ = Raise ValueError"

text \<open>
  \<open>DeviceMessage\<close>. Python checks no field type, so a decoded message holds whatever
  JSON value the peer sent in each field but \<open>type\<close>.
\<close>

record DeviceMessage =
  type :: MessageType
  action :: json
  payload :: json
  message_id :: json
  timestamp :: json
  device_id :: json
  correlation_id :: json

definition to_dict :: "DeviceMessage \<Rightarrow> json" where
  "to_dict m = JObj
     [(''type'', JStr (MessageType_value (type m))),
      (''action'', action m),
      (''payload'', payload m),
      (''message_id'', message_id m),
      (''timestamp'', timestamp m),
      (''device_id'', device_id m),
      (''correlation_id'', correlation_id m)]"

definition to_json :: "jsonlib \<Rightarrow> DeviceMessage \<Rightarrow> string" where
  "to_json J m = dumps J (to_dict m)"

text \<open>\<open>DeviceMessage.from_json\<close>; \<open>now\<close> is what \<open>time.time()\<close> returns.\<close>

definition from_json :: "jsonlib \<Rightarrow> real \<Rightarrow> string \<Rightarrow> DeviceMessage outcome" where
  "from_json J now data =
     (case loads J data of
        None \<Rightarrow> Raise JSONDecodeError
      | Some (JObj obj) \<Rightarrow>
          (case MessageType_of (dict_get obj ''type'' (JStr ''command'')) of
             Raise e \<Rightarrow> Raise e
           | Return t \<Rightarrow> Return
               \<lparr>type = t,
                action = dict_get obj ''action'' (JStr ''''),
                payload = dict_get obj ''payload'' (JObj []),
                message_id = dict_get obj ''message_id'' (JStr ''''),
                timestamp = dict_get obj ''timestamp'' (JNum now),
                device_id = dict_get obj ''device_id'' (JStr ''''),
                correlation_id = dict_get obj ''correlation_id'' (JStr '''')\<rparr>)
      | Some _ \<Rightarrow> Raise AttributeError)"

section \<open>Device connections\<close>

text \<open>
  A future is pending, done with a result, or cancelled. A web socket is known by what
  the engine can observe of it: whether \<open>close()\<close> was called, whether the peer is
  gone (then \<open>send_text\<close> raises), and the texts sent so far, oldest first.
\<close>

datatype future = FPending | FResult json | FCancelled

record WebSocket =
  ws_closed :: bool
  ws_broken :: bool
  ws_sent :: "string list"

text \<open>
  \<open>DeviceConnection\<close>. \<open>websocket\<close> and the values of \<open>pending_requests\<close> are
  references: into the sockets and into the futures of the state below.
\<close>

record DeviceConnection =
  conn_device_id :: string
  websocket :: "nat option"
  connected_at :: real
  last_heartbeat :: real
  last_message :: real
  messages_sent :: int
  messages_received :: int
  commands_executed :: int
  errors :: int
  status :: string
  pending_requests :: "(string \<times> nat) list"

definition is_alive :: "DeviceConnection \<Rightarrow> real \<Rightarrow> real \<Rightarrow> bool" where
  "is_alive conn now timeout = (now - last_heartbeat conn < timeout)"

text \<open>
  What the engine tells its collaborators: the calls made on the device registry, the
  events handed to the registered callbacks (\<open>_emit_event\<close> catches what a callback
  raises), and the log.
\<close>

datatype registry_call =
    Register string json
  | UpdateStatus string string

datatype comm_event =
    Connected string
  | Disconnected string
  | Message string DeviceMessage

datatype log_record =
    LogConnected string
  | LogDisconnected string
  | LogNotConnected string
  | LogSendFailed string
  | LogHandshake string
  | LogAutoRegisterFailed exn
  | LogDeviceError string json
  | LogDeviceEvent string json
  | LogHandleFailed string exn
  | LogHeartbeatTimeout string

text \<open>
  \<open>DeviceCommunication\<close>: the six attributes of the manager, then the objects they refer
  to and the surroundings. \<open>connections\<close> maps a device id to the reference of its
  \<open>DeviceConnection\<close> object in \<open>conn_objects\<close>: a coroutine suspended in
  \<open>send_command\<close> keeps the reference of the object it started with, also after the
  map names another object for the device. \<open>registry_devices\<close> is the status the device
  registry holds for each registered device. \<open>uuid4 k\<close> is the text of the first eight
  hexadecimal digits of the \<open>k\<close>-th uuid drawn, which is what both
  \<open>str(uuid.uuid4())[:8]\<close> and \<open>uuid.uuid4().hex[:8]\<close> yield. A handler returns a JSON value
  (\<open>JNull\<close> for \<open>None\<close>) or raises an exception derived from \<open>Exception\<close>.
\<close>

record DeviceCommunication =
  connections :: "(string \<times> nat) list"
  heartbeat_task :: bool
  message_handlers :: "(string \<times> (string \<Rightarrow> DeviceMessage \<Rightarrow> json outcome)) list"
  heartbeat_interval :: real
  heartbeat_timeout :: real
  command_timeout :: real
  conn_objects :: "nat \<Rightarrow> DeviceConnection option"
  next_object :: nat
  futures :: "nat \<Rightarrow> future option"
  next_future :: nat
  sockets :: "nat \<Rightarrow> WebSocket option"
  registry_devices :: "(string \<times> string) list"
  registry_calls :: "registry_call list"
  events :: "comm_event list"
  logged :: "log_record list"
  uuid4 :: "nat \<Rightarrow> string"
  uuid_drawn :: nat

type_synonym comm = DeviceCommunication

definition DeviceCommunication_init ::
  "(nat \<Rightarrow> WebSocket option) \<Rightarrow> (string \<times> string) list \<Rightarrow> (nat \<Rightarrow> string) \<Rightarrow> comm" where
  "DeviceCommunication_init socks reg ids =
     \<lparr>connections = [], heartbeat_task = False, message_handlers = [],
      heartbeat_interval = 30, heartbeat_timeout = 60, command_timeout = 30,
      conn_objects = (\<lambda>_. None), next_object = 0,
      futures = (\<lambda>_. None), next_future = 0,
      sockets = socks, registry_devices = reg, registry_calls = [],
      events = [], logged = [], uuid4 = ids, uuid_drawn = 0\<rparr>"

definition log_append :: "comm \<Rightarrow> log_record \<Rightarrow> comm" where
  "log_append w l = w\<lparr>logged := logged w @ [l]\<rparr>"

definition emit_event :: "comm \<Rightarrow> comm_event \<Rightarrow> comm" where
  "emit_event w e = w\<lparr>events := events w @ [e]\<rparr>"

text \<open>\<open>self.connections.get(device_id)\<close>: the reference and the object.\<close>

definition get_conn :: "comm \<Rightarrow> string \<Rightarrow> (nat \<times> DeviceConnection) option" where
  "get_conn w d =
     (case map_of (connections w) d of
        None \<Rightarrow> None
      | Some r \<Rightarrow> (case conn_objects w r of None \<Rightarrow> None | Some conn \<Rightarrow> Some (r, conn)))"

text \<open>An assignment to attributes of the connection object \<open>r\<close>.\<close>

definition upd_conn :: "comm \<Rightarrow> nat \<Rightarrow> (DeviceConnection \<Rightarrow> DeviceConnection) \<Rightarrow> comm" where
  "upd_conn w r f =
     (case conn_objects w r of
        None \<Rightarrow> w
      | Some conn \<Rightarrow> w\<lparr>conn_objects := (conn_objects w)(r \<mapsto> f conn)\<rparr>)"

text \<open>
  \<open>device_registry.update_status(device_id, status=s)\<close> (core/device\_registry.py): an
  unknown device is left alone. The callers swallow whatever it raises.
\<close>

definition update_status :: "comm \<Rightarrow> string \<Rightarrow> string \<Rightarrow> comm" where
  "update_status w d s =
     w\<lparr>registry_calls := registry_calls w @ [UpdateStatus d s],
       registry_devices :=
         (case map_of (registry_devices w) d of
            None \<Rightarrow> registry_devices w
          | Some _ \<Rightarrow> if s \<noteq> [] then AList.update d s (registry_devices w)
                      else registry_devices w)\<rparr>"

text \<open>
  The construction of a \<open>DeviceMessage\<close> with the default \<open>message_id\<close> and
  \<open>timestamp\<close>: it draws one uuid.
\<close>

definition new_message ::
  "real \<Rightarrow> comm \<Rightarrow> MessageType \<Rightarrow> json \<Rightarrow> json \<Rightarrow> json \<Rightarrow> json \<Rightarrow> comm \<times> DeviceMessage" where
  "new_message now w t a p d c =
     (w\<lparr>uuid_drawn := Suc (uuid_drawn w)\<rparr>,
      \<lparr>type = t, action = a, payload = p,
       message_id = JStr (uuid4 w (uuid_drawn w)), timestamp = JNum now,
       device_id = d, correlation_id = c\<rparr>)"

subsection \<open>connect, disconnect\<close>

definition connect :: "real \<Rightarrow> comm \<Rightarrow> string \<Rightarrow> nat \<Rightarrow> comm \<times> bool" where
  "connect now w d ws =
     (let r = next_object w;
          conn = \<lparr>conn_device_id = d, websocket = Some ws, connected_at = now,
                  last_heartbeat = now, last_message = now,
                  messages_sent = 0, messages_received = 0, commands_executed = 0,
                  errors = 0, status = ''connected'', pending_requests = []\<rparr>;
          w1 = w\<lparr>conn_objects := (conn_objects w)(r \<mapsto> conn), next_object := Suc r,
                 connections := AList.update d r (connections w)\<rparr>;
          w2 = update_status w1 d ''online'';
          w3 = w2\<lparr>heartbeat_task := True\<rparr>;
          w4 = emit_event w3 (Connected d)
      in (log_append w4 (LogConnected d), True))"

text \<open>\<open>await conn.websocket.close()\<close> inside \<open>try\<close>/\<open>except: pass\<close>.\<close>

definition close_socket :: "comm \<Rightarrow> nat \<Rightarrow> comm" where
  "close_socket w s =
     (case sockets w s of
        None \<Rightarrow> w
      | Some sock \<Rightarrow> w\<lparr>sockets := (sockets w)(s \<mapsto> sock\<lparr>ws_closed := True\<rparr>)\<rparr>)"

definition disconnect :: "comm \<Rightarrow> string \<Rightarrow> comm \<times> bool" where
  "disconnect w d =
     (case map_of (connections w) d of
        None \<Rightarrow> (w, False)
      | Some r \<Rightarrow>
          (let w1 = w\<lparr>connections := AList.delete d (connections w)\<rparr>;
               w2 = (case conn_objects w1 r of
                       None \<Rightarrow> w1
                     | Some conn \<Rightarrow>
                         (case websocket conn of None \<Rightarrow> w1 | Some s \<Rightarrow> close_socket w1 s));
               w3 = update_status w2 d ''offline'';
               w4 = emit_event w3 (Disconnected d)
           in (log_append w4 (LogDisconnected d), True)))"

definition is_connected :: "real \<Rightarrow> comm \<Rightarrow> string \<Rightarrow> bool" where
  "is_connected now w d =
     (case get_conn w d of
        None \<Rightarrow> False
      | Some (r, conn) \<Rightarrow> is_alive conn now (heartbeat_timeout w))"

definition list_connected_devices :: "real \<Rightarrow> comm \<Rightarrow> string list" where
  "list_connected_devices now w =
     map fst (filter (\<lambda>(d, r). case conn_objects w r of
                                  None \<Rightarrow> False
                                | Some conn \<Rightarrow> is_alive conn now (heartbeat_timeout w))
                (connections w))"

subsection \<open>send, send\_command\<close>

text \<open>\<open>websocket.send_text(text)\<close>; \<open>None\<close> when it raises.\<close>

definition send_text :: "comm \<Rightarrow> nat \<Rightarrow> string \<Rightarrow> comm option" where
  "send_text w s text =
     (case sockets w s of
        None \<Rightarrow> None
      | Some sock \<Rightarrow>
          if ws_closed sock \<or> ws_broken sock then None
          else Some (w\<lparr>sockets := (sockets w)(s \<mapsto> sock\<lparr>ws_sent := ws_sent sock @ [text]\<rparr>)\<rparr>))"

definition send :: "jsonlib \<Rightarrow> real \<Rightarrow> comm \<Rightarrow> string \<Rightarrow> DeviceMessage \<Rightarrow> comm \<times> bool" where
  "send J now w d message =
     (case get_conn w d of
        None \<Rightarrow> (log_append w (LogNotConnected d), False)
      | Some (r, conn) \<Rightarrow>
          (case websocket conn of
             None \<Rightarrow> (log_append w (LogNotConnected d), False)
           | Some s \<Rightarrow>
               (case send_text w s (to_json J (message\<lparr>device_id := JStr d\<rparr>)) of
                  None \<Rightarrow>
                    (upd_conn (log_append w (LogSendFailed d)) r
                       (\<lambda>c. c\<lparr>errors := errors c + 1\<rparr>), False)
                | Some w1 \<Rightarrow>
                    (upd_conn w1 r
                       (\<lambda>c. c\<lparr>messages_sent := messages_sent c + 1, last_message := now\<rparr>),
                     True))))"

text \<open>
  \<open>send_command\<close> suspends at \<open>asyncio.wait_for(future, timeout)\<close>. It is modelled in
  two steps: \<open>send_command_begin\<close> runs to the return or to the wait, where it yields the
  coroutine's locals as a \<open>pending_call\<close>; \<open>send_command_resume\<close> runs the rest each
  time the event loop looks at the wait. The returned dictionaries
  \<open>{"success": False, "error": text}\<close> are named by their text: device not connected,
  sending failed, command timed out.
\<close>

record pending_call =
  call_conn :: nat
  call_message_id :: string
  call_future :: nat
  call_deadline :: real

datatype command_result =
    NotConnected
  | SendFailed
  | CommandTimeout
  | Response json
  | Cancelled

text \<open>\<open>conn.pending_requests.pop(message_id, None)\<close> on the connection object \<open>r\<close>.\<close>

definition pop_pending :: "comm \<Rightarrow> nat \<Rightarrow> string \<Rightarrow> comm" where
  "pop_pending w r mid =
     upd_conn w r (\<lambda>c. c\<lparr>pending_requests := AList.delete mid (pending_requests c)\<rparr>)"

definition send_command_begin ::
  "jsonlib \<Rightarrow> real \<Rightarrow> comm \<Rightarrow> string \<Rightarrow> string \<Rightarrow> json \<Rightarrow> real option
     \<Rightarrow> comm \<times> (command_result + pending_call)" where
  "send_command_begin J now w d act params timeout =
     (case get_conn w d of
        None \<Rightarrow> (w, Inl NotConnected)
      | Some (r, conn) \<Rightarrow>
          (case websocket conn of
             None \<Rightarrow> (w, Inl NotConnected)
           | Some _ \<Rightarrow>
               (let t = (case timeout of
                           None \<Rightarrow> command_timeout w
                         | Some x \<Rightarrow> if x = 0 then command_timeout w else x);
                    mid = uuid4 w (uuid_drawn w);
                    (w1, message) =
                       new_message now w COMMAND (JStr act) (py_or params (JObj []))
                         (JStr '''') (JStr '''');
                    f = next_future w1;
                    w2 = w1\<lparr>futures := (futures w1)(f \<mapsto> FPending), next_future := Suc f\<rparr>;
                    w3 = upd_conn w2 r
                           (\<lambda>c. c\<lparr>pending_requests := AList.update mid f (pending_requests c)\<rparr>);
                    (w4, success) = send J now w3 d message
                in if \<not> success then (pop_pending w4 r mid, Inl SendFailed)
                   else (w4, Inr \<lparr>call_conn = r, call_message_id = mid, call_future = f,
                                  call_deadline = now + t\<rparr>))))"

text \<open>
  At the wait: a result set on the future is returned; a future still pending at the
  deadline is cancelled by \<open>wait_for\<close>, which raises \<open>TimeoutError\<close>; before the
  deadline the coroutine stays suspended (\<open>None\<close>). The \<open>finally\<close> clause runs on
  every return.
\<close>

definition send_command_resume ::
  "real \<Rightarrow> comm \<Rightarrow> pending_call \<Rightarrow> comm \<times> command_result option" where
  "send_command_resume now w c =
     (case futures w (call_future c) of
        Some (FResult response) \<Rightarrow>
          (pop_pending
             (upd_conn w (call_conn c) (\<lambda>k. k\<lparr>commands_executed := commands_executed k + 1\<rparr>))
             (call_conn c) (call_message_id c),
           Some (Response response))
      | Some FPending \<Rightarrow>
          if call_deadline c \<le> now
          then (pop_pending (w\<lparr>futures := (futures w)(call_future c \<mapsto> FCancelled)\<rparr>)
                  (call_conn c) (call_message_id c),
                Some CommandTimeout)
          else (w, None)
      | _ \<Rightarrow> (pop_pending w (call_conn c) (call_message_id c), Some Cancelled))"

subsection \<open>handle\_message\<close>

text \<open>
  The auto-registration of a handshake (lines 411 to 426). \<open>device_registry.register\<close>
  (core/device\_registry.py) replaces an empty device id by the device type, an
  underscore and eight digits of a new uuid, then calls \<open>device_type.lower()\<close> and
  stores the device as online under the id; what it raises is logged as a warning. The
  device type has been formatted into the id only where \<open>lower\<close> does not raise, and
  then it is a string.
\<close>

definition auto_register :: "comm \<Rightarrow> string \<Rightarrow> (string \<times> json) list \<Rightarrow> comm" where
  "auto_register w d raw_msg =
     (case map_of (registry_devices w) d of
        Some _ \<Rightarrow> w
      | None \<Rightarrow>
          (let device_type = dict_get raw_msg ''platform'' (JStr ''android'');
               w1 = (if d = [] then w\<lparr>uuid_drawn := Suc (uuid_drawn w)\<rparr> else w);
               registered_id =
                 (if d = []
                  then (case device_type of JStr p \<Rightarrow> p | _ \<Rightarrow> [])
                       @ ''_'' @ uuid4 w (uuid_drawn w)
                  else d)
           in case py_lower device_type of
                Raise e \<Rightarrow> log_append w1 (LogAutoRegisterFailed e)
              | Return _ \<Rightarrow>
                  w1\<lparr>registry_calls := registry_calls w1 @ [Register d device_type],
                     registry_devices :=
                       AList.update registered_id ''online'' (registry_devices w1)\<rparr>))"

text \<open>\<open>_handle_event\<close>: \<open>message.payload.get\<close> raises when the payload is no dict.\<close>

definition handle_event :: "comm \<Rightarrow> string \<Rightarrow> DeviceMessage \<Rightarrow> comm outcome" where
  "handle_event w d message =
     (case payload message of
        JObj p \<Rightarrow> Return (log_append w (LogDeviceEvent d (dict_get p ''event_type'' (JStr ''''))))
      | _ \<Rightarrow> Raise AttributeError)"

text \<open>
  The response branch (lines 469 to 473): a key that is a list or a dict cannot be hashed,
  a key that is no string equals no message id.
\<close>

definition resolve_response ::
  "comm \<Rightarrow> nat \<Rightarrow> DeviceMessage \<Rightarrow> comm \<times> DeviceMessage option outcome" where
  "resolve_response w r message =
     (case correlation_id message of
        JStr cid \<Rightarrow>
          (case conn_objects w r of
             None \<Rightarrow> (w, Return None)
           | Some conn \<Rightarrow>
               (case map_of (pending_requests conn) cid of
                  None \<Rightarrow> (w, Return None)
                | Some f \<Rightarrow>
                    (case futures w f of
                       Some FPending \<Rightarrow>
                         (w\<lparr>futures := (futures w)(f \<mapsto> FResult (payload message))\<rparr>, Return None)
                     | _ \<Rightarrow> (w, Return None))))
      | JArr _ \<Rightarrow> (w, Raise TypeError)
      | JObj _ \<Rightarrow> (w, Raise TypeError)
      | _ \<Rightarrow> (w, Return None))"

text \<open>The message callbacks and the registered handler (lines 496 to 510).\<close>

definition call_handler ::
  "real \<Rightarrow> comm \<Rightarrow> string \<Rightarrow> DeviceMessage \<Rightarrow> comm \<times> DeviceMessage option outcome" where
  "call_handler now w d message =
     (let w1 = emit_event w (Message d message)
      in case action message of
           JStr a \<Rightarrow>
             (case map_of (message_handlers w1) a of
                None \<Rightarrow> (w1, Return None)
              | Some handler \<Rightarrow>
                  (case handler d message of
                     Raise e \<Rightarrow> (w1, Raise e)
                   | Return result \<Rightarrow>
                       if truthy result
                       then (let (w2, reply) =
                                   new_message now w1 RESPONSE (action message) result
                                     (JStr '''') (message_id message)
                             in (w2, Return (Some reply)))
                       else (w1, Return None)))
         | JArr _ \<Rightarrow> (w1, Raise TypeError)
         | JObj _ \<Rightarrow> (w1, Raise TypeError)
         | _ \<Rightarrow> (w1, Return None))"

text \<open>Lines 455 to 510: the statistics, then the branch of the message's type.\<close>

definition dispatch ::
  "real \<Rightarrow> comm \<Rightarrow> string \<Rightarrow> nat \<Rightarrow> DeviceMessage \<Rightarrow> comm \<times> DeviceMessage option outcome" where
  "dispatch now w0 d r message =
     (let w = upd_conn w0 r
                (\<lambda>c. c\<lparr>messages_received := messages_received c + 1, last_message := now\<rparr>)
      in case type message of
           HEARTBEAT \<Rightarrow>
             (let (w2, reply) =
                    new_message now (upd_conn w r (\<lambda>c. c\<lparr>last_heartbeat := now\<rparr>))
                      ACK (JStr ''heartbeat'') (JObj []) (JStr '''') (message_id message)
              in (w2, Return (Some reply)))
         | RESPONSE \<Rightarrow> resolve_response w r message
         | STATUS \<Rightarrow>
             (let (w2, reply) =
                    new_message now w ACK (JStr ''status'') (JObj []) (JStr '''')
                      (message_id message)
              in (w2, Return (Some reply)))
         | EVENT \<Rightarrow>
             (case handle_event w d message of
                Raise e \<Rightarrow> (w, Raise e)
              | Return w1 \<Rightarrow> (w1, Return None))
         | ERROR \<Rightarrow>
             (log_append (upd_conn w r (\<lambda>c. c\<lparr>errors := errors c + 1\<rparr>))
                (LogDeviceError d (payload message)),
              Return None)
         | _ \<Rightarrow> call_handler now w d message)"

text \<open>The \<open>try\<close> block of \<open>handle_message\<close> (lines 402 to 510), on the connection \<open>r\<close>.\<close>

definition handle_message_try ::
  "jsonlib \<Rightarrow> real \<Rightarrow> comm \<Rightarrow> string \<Rightarrow> nat \<Rightarrow> string
     \<Rightarrow> comm \<times> DeviceMessage option outcome" where
  "handle_message_try J now w d r message_data =
     (case loads J message_data of
        None \<Rightarrow> (w, Raise JSONDecodeError)
      | Some (JObj raw_msg) \<Rightarrow>
          if dict_get raw_msg ''type'' JNull = JStr ''handshake'' then
            (let (w3, reply) =
                   new_message now (auto_register (log_append w (LogHandshake d)) d raw_msg)
                     ACK (JStr ''handshake'')
                     (JObj [(''status'', JStr ''connected''), (''device_id'', JStr d)])
                     (JStr '''') (JStr '''')
             in (w3, Return (Some reply)))
          else if dict_get raw_msg ''type'' JNull = JStr ''heartbeat'' then
            (let (w2, reply) =
                   new_message now (upd_conn w r (\<lambda>c. c\<lparr>last_heartbeat := now\<rparr>))
                     ACK (JStr ''heartbeat'') (JObj []) (JStr '''') (JStr '''')
             in (w2, Return (Some reply)))
          else if map_of raw_msg ''type'' \<noteq> None \<and> map_of raw_msg ''payload'' \<noteq> None then
            (case py_lower (dict_get raw_msg ''type'' (JStr '''')) of
               Raise e \<Rightarrow> (w, Raise e)
             | Return a \<Rightarrow>
                 (let (w1, message) =
                        new_message now w
                          (if dict_get raw_msg ''type'' JNull \<in> {JStr ''TEXT'', JStr ''COMMAND''}
                           then COMMAND else EVENT)
                          a (dict_get raw_msg ''payload'' (JObj [])) (JStr d) (JStr '''')
                  in dispatch now w1 d r message))
          else
            (case from_json J now message_data of
               Raise e \<Rightarrow> (w, Raise e)
             | Return message \<Rightarrow> dispatch now w d r message)
      | Some _ \<Rightarrow> (w, Raise AttributeError))"

text \<open>
  \<open>handle_message\<close>: the result is the value returned (\<open>Return None\<close> for no reply) or
  the exception that leaves the function.
\<close>

definition handle_message ::
  "jsonlib \<Rightarrow> real \<Rightarrow> comm \<Rightarrow> string \<Rightarrow> string \<Rightarrow> comm \<times> DeviceMessage option outcome" where
  "handle_message J now w d message_data =
     (case get_conn w d of
        None \<Rightarrow> (w, Return None)
      | Some (r, conn) \<Rightarrow>
          (case handle_message_try J now w d r message_data of
             (w1, Raise e) \<Rightarrow> (log_append w1 (LogHandleFailed d e), Return None)
           | (w1, Return reply) \<Rightarrow> (w1, Return reply)))"

definition register_handler ::
  "comm \<Rightarrow> string \<Rightarrow> (string \<Rightarrow> DeviceMessage \<Rightarrow> json outcome) \<Rightarrow> comm" where
  "register_handler w a handler =
     w\<lparr>message_handlers := AList.update a handler (message_handlers w)\<rparr>"

subsection \<open>The heartbeat loop\<close>

text \<open>
  One pass of the \<open>for\<close> loop of \<open>_heartbeat_loop\<close> over the snapshot
  \<open>list(self.connections.items())\<close>, then the passes of the loop at the successive
  times at which \<open>asyncio.sleep\<close> returns, until the task is cancelled.
\<close>

definition heartbeat_probe :: "jsonlib \<Rightarrow> real \<Rightarrow> comm \<Rightarrow> string \<Rightarrow> comm" where
  "heartbeat_probe J now w d =
     (let (w1, message) = new_message now w HEARTBEAT (JStr '''') (JObj []) (JStr '''') (JStr '''')
      in fst (send J now w1 d message))"

fun heartbeat_check :: "jsonlib \<Rightarrow> real \<Rightarrow> comm \<Rightarrow> (string \<times> nat) list \<Rightarrow> comm" where
  "heartbeat_check J now w [] = w"
| "heartbeat_check J now w ((d, r) # rest) =
     (case conn_objects w r of
        None \<Rightarrow> heartbeat_check J now w rest
      | Some conn \<Rightarrow>
          if \<not> is_alive conn now (heartbeat_timeout w)
          then heartbeat_check J now
                 (fst (disconnect (log_append w (LogHeartbeatTimeout d)) d)) rest
          else heartbeat_check J now (heartbeat_probe J now w d) rest)"

definition heartbeat_sweep :: "jsonlib \<Rightarrow> real \<Rightarrow> comm \<Rightarrow> comm" where
  "heartbeat_sweep J now w = heartbeat_check J now w (connections w)"

fun heartbeat_loop :: "jsonlib \<Rightarrow> comm \<Rightarrow> real list \<Rightarrow> comm" where
  "heartbeat_loop J w [] = w"
| "heartbeat_loop J w (now # later) = heartbeat_loop J (heartbeat_sweep J now w) later"

text \<open>\<open>get_stats\<close>: the totals over the connections of the map.\<close>

definition mapped_conns :: "comm \<Rightarrow> DeviceConnection list" where
  "mapped_conns w = List.map_filter (\<lambda>(d, r). conn_objects w r) (connections w)"

record stats =
  connected_devices :: nat
  total_messages_sent :: int
  total_messages_received :: int
  total_commands :: int
  total_errors :: int

definition get_stats :: "comm \<Rightarrow> stats" where
  "get_stats w =
     \<lparr>connected_devices = length (connections w),
      total_messages_sent = sum_list (map messages_sent (mapped_conns w)),
      total_messages_received = sum_list (map messages_received (mapped_conns w)),
      total_commands = sum_list (map commands_executed (mapped_conns w)),
      total_errors = sum_list (map errors (mapped_conns w))\<rparr>"

section \<open>Tool servers (core/mcp\_loader.py)\<close>

text \<open>
  A subprocess as the loader observes it: what \<open>poll()\<close> returns, the texts written to
  its standard input, whether a write raises, the lines \<open>readline\<close> will return (the
  empty text at end of file follows them), the decoded standard error, and the signals
  sent. \<open>ignores_terminate\<close> says that \<open>wait(timeout=5)\<close> raises after
  \<open>terminate()\<close>.
\<close>

datatype signal = SIGTERM | SIGKILL

record Popen =
  returncode :: "int option"
  stdin_written :: "string list"
  stdin_broken :: bool
  stdout_lines :: "string list"
  stderr_text :: string
  signals :: "signal list"
  ignores_terminate :: bool

text \<open>
  The operating system: \<open>os.environ\<close>, and \<open>subprocess.Popen(argv, env, cwd)\<close>,
  which raises or yields the process as it stands after the start-up sleep.
\<close>

record os =
  environ :: "(string \<times> string) list"
  popen :: "string list \<Rightarrow> (string \<times> string) list \<Rightarrow> string option \<Rightarrow> Popen outcome"

record MCPRequest =
  rq_jsonrpc :: string
  rq_id :: "int option"
  rq_method :: string
  rq_params :: json

definition MCPRequest_to_json :: "jsonlib \<Rightarrow> MCPRequest \<Rightarrow> string" where
  "MCPRequest_to_json J request =
     dumps J (JObj
       [(''jsonrpc'', JStr (rq_jsonrpc request)),
        (''id'', (case rq_id request of None \<Rightarrow> JNull | Some i \<Rightarrow> JNum (of_int i))),
        (''method'', JStr (rq_method request)),
        (''params'', rq_params request)])"

record MCPResponse =
  rs_jsonrpc :: json
  rs_id :: json
  rs_result :: json
  rs_error :: json

definition MCPResponse_from_json :: "jsonlib \<Rightarrow> string \<Rightarrow> MCPResponse outcome" where
  "MCPResponse_from_json J data =
     (case loads J data of
        None \<Rightarrow> Raise JSONDecodeError
      | Some (JObj obj) \<Rightarrow> Return
          \<lparr>rs_jsonrpc = dict_get obj ''jsonrpc'' (JStr ''2.0''),
           rs_id = dict_get obj ''id'' JNull,
           rs_result = dict_get obj ''result'' JNull,
           rs_error = dict_get obj ''error'' JNull\<rparr>
      | Some _ \<Rightarrow> Raise AttributeError)"

record MCPTool =
  tool_name :: json
  tool_description :: json
  tool_inputSchema :: json

record MCPResource =
  resource_uri :: json
  resource_name :: json
  resource_description :: json
  resource_mimeType :: json

record MCPPrompt =
  prompt_name :: json
  prompt_description :: json
  prompt_arguments :: json

fun MCPTool_from_dict :: "json \<Rightarrow> MCPTool outcome" where
  "MCPTool_from_dict (JObj data) = Return
     \<lparr>tool_name = dict_get data ''name'' (JStr ''''),
      tool_description = dict_get data ''description'' (JStr ''''),
      tool_inputSchema = dict_get data ''inputSchema'' (JObj [])\<rparr>"
| "MCPTool_from_dict _ = Raise AttributeError"

fun MCPResource_from_dict :: "json \<Rightarrow> MCPResource outcome" where
  "MCPResource_from_dict (JObj data) = Return
     \<lparr>resource_uri = dict_get data ''uri'' (JStr ''''),
      resource_name = dict_get data ''name'' (JStr ''''),
      resource_description = dict_get data ''description'' (JStr ''''),
      resource_mimeType = dict_get data ''mimeType'' (JStr '''')\<rparr>"
| "MCPResource_from_dict _ = Raise AttributeError"

fun MCPPrompt_from_dict :: "json \<Rightarrow> MCPPrompt outcome" where
  "MCPPrompt_from_dict (JObj data) = Return
     \<lparr>prompt_name = dict_get data ''name'' (JStr ''''),
      prompt_description = dict_get data ''description'' (JStr ''''),
      prompt_arguments = dict_get data ''arguments'' (JArr [])\<rparr>"
| "MCPPrompt_from_dict _ = Raise AttributeError"

datatype MCPServerStatus = STOPPED | STARTING | RUNNING | SERVER_ERROR

fun MCPServerStatus_value :: "MCPServerStatus \<Rightarrow> string" where
  "MCPServerStatus_value STOPPED = ''stopped''"
| "MCPServerStatus_value STARTING = ''starting''"
| "MCPServerStatus_value RUNNING = ''running''"
| "MCPServerStatus_value SERVER_ERROR = ''error''"

text \<open>
  The text kept in \<open>server.error\<close>: what the process wrote to its standard error, or
  \<open>str(e)\<close> of the exception caught.
\<close>

datatype error_text = StderrOutput string | ExceptionText exn

record MCPServerInstance =
  server_id :: string
  server_name :: string
  command :: "string list"
  args :: "string list"
  env :: "(string \<times> string) list"
  cwd :: string
  server_status :: MCPServerStatus
  process :: "nat option"
  server_error :: "error_text option"
  tools :: "MCPTool list"
  resources :: "MCPResource list"
  prompts :: "MCPPrompt list"
  server_info :: json
  capabilities :: json
  created_at :: real

datatype mcp_log =
    LogStarted string string
  | LogStartFailed exn
  | LogStopped string
  | LogRequestFailed string exn

text \<open>
  \<open>MCPLoader\<close>: \<open>servers\<close> and \<open>_request_id\<close>, then the processes that the
  \<open>process\<close> attributes refer to, and the log.
\<close>

record MCPLoader =
  servers :: "(string \<times> MCPServerInstance) list"
  request_id :: int
  processes :: "nat \<Rightarrow> Popen option"
  next_process :: nat
  mcp_logged :: "mcp_log list"

definition MCPLoader_init :: MCPLoader where
  "MCPLoader_init =
     \<lparr>servers = [], request_id = 0, processes = (\<lambda>_. None), next_process = 0,
      mcp_logged = []\<rparr>"

definition mcp_log_append :: "MCPLoader \<Rightarrow> mcp_log \<Rightarrow> MCPLoader" where
  "mcp_log_append l e = l\<lparr>mcp_logged := mcp_logged l @ [e]\<rparr>"

text \<open>An assignment to attributes of the server object stored under \<open>sid\<close>.\<close>

definition upd_server ::
  "MCPLoader \<Rightarrow> string \<Rightarrow> (MCPServerInstance \<Rightarrow> MCPServerInstance) \<Rightarrow> MCPLoader" where
  "upd_server l sid f =
     (case map_of (servers l) sid of
        None \<Rightarrow> l
      | Some server \<Rightarrow> l\<lparr>servers := AList.update sid (f server) (servers l)\<rparr>)"

text \<open>\<open>stdin.write(text)\<close> with \<open>flush()\<close>, and \<open>stdout.readline()\<close>.\<close>

definition stdin_write :: "MCPLoader \<Rightarrow> nat \<Rightarrow> string \<Rightarrow> MCPLoader outcome" where
  "stdin_write l p text =
     (case processes l p of
        None \<Rightarrow> Raise OSError
      | Some proc \<Rightarrow>
          if stdin_broken proc then Raise OSError
          else Return (l\<lparr>processes :=
                 (processes l)(p \<mapsto> proc\<lparr>stdin_written := stdin_written proc @ [text]\<rparr>)\<rparr>))"

definition stdout_readline :: "MCPLoader \<Rightarrow> nat \<Rightarrow> MCPLoader \<times> string" where
  "stdout_readline l p =
     (case processes l p of
        None \<Rightarrow> (l, [])
      | Some proc \<Rightarrow>
          (case stdout_lines proc of
             [] \<Rightarrow> (l, [])
           | line # rest \<Rightarrow>
               (l\<lparr>processes := (processes l)(p \<mapsto> proc\<lparr>stdout_lines := rest\<rparr>)\<rparr>, line)))"

subsection \<open>Requests\<close>

text \<open>
  \<open>_send_request\<close>. The guard and the two statements that draw the id and build the
  request (lines 390 to 399) are \<open>next_request\<close>; the exchange inside \<open>try\<close> follows.
\<close>

definition next_request ::
  "MCPLoader \<Rightarrow> string \<Rightarrow> string \<Rightarrow> json \<Rightarrow> (MCPLoader \<times> nat \<times> MCPRequest) option" where
  "next_request l sid method params =
     (case map_of (servers l) sid of
        None \<Rightarrow> None
      | Some server \<Rightarrow>
          (case process server of
             None \<Rightarrow> None
           | Some p \<Rightarrow>
               Some (l\<lparr>request_id := request_id l + 1\<rparr>, p,
                     \<lparr>rq_jsonrpc = ''2.0'', rq_id = Some (request_id l + 1),
                      rq_method = method, rq_params = py_or params (JObj [])\<rparr>)))"

definition send_request ::
  "jsonlib \<Rightarrow> MCPLoader \<Rightarrow> string \<Rightarrow> string \<Rightarrow> json \<Rightarrow> MCPLoader \<times> MCPResponse option" where
  "send_request J l sid method params =
     (case next_request l sid method params of
        None \<Rightarrow> (l, None)
      | Some (l1, p, request) \<Rightarrow>
          (case stdin_write l1 p (MCPRequest_to_json J request @ [CHR 0x0A]) of
             Raise e \<Rightarrow> (mcp_log_append l1 (LogRequestFailed method e), None)
           | Return l2 \<Rightarrow>
               (let (l3, response_line) = stdout_readline l2 p
                in if response_line = [] then (l3, None)
                   else (case MCPResponse_from_json J response_line of
                           Raise e \<Rightarrow> (mcp_log_append l3 (LogRequestFailed method e), None)
                         | Return response \<Rightarrow> (l3, Some response)))))"

definition send_notification ::
  "jsonlib \<Rightarrow> MCPLoader \<Rightarrow> string \<Rightarrow> string \<Rightarrow> json \<Rightarrow> MCPLoader outcome" where
  "send_notification J l sid method params =
     (case map_of (servers l) sid of
        None \<Rightarrow> Return l
      | Some server \<Rightarrow>
          (case process server of
             None \<Rightarrow> Return l
           | Some p \<Rightarrow>
               stdin_write l p
                 (dumps J (JObj [(''jsonrpc'', JStr ''2.0''), (''method'', JStr method),
                                 (''params'', py_or params (JObj []))]) @ [CHR 0x0A])))"

text \<open>A \<open>for\<close> over a JSON value, and a list comprehension that stops where an element raises.\<close>

fun py_iter :: "json \<Rightarrow> json list outcome" where
  "py_iter (JArr xs) = Return xs"
| "py_iter (JObj kvs) = Return (map (\<lambda>kv. JStr (fst kv)) kvs)"
| "py_iter (JStr s) = Return (map (\<lambda>c. JStr [c]) s)"
| "py_iter _ = Raise TypeError"

fun map_outcome :: "('a \<Rightarrow> 'b outcome) \<Rightarrow> 'a list \<Rightarrow> 'b list outcome" where
  "map_outcome f [] = Return []"
| "map_outcome f (x # xs) =
     (case f x of
        Raise e \<Rightarrow> Raise e
      | Return y \<Rightarrow> (case map_outcome f xs of Raise e \<Rightarrow> Raise e | Return ys \<Rightarrow> Return (y # ys)))"

text \<open>
  The common part of \<open>_refresh_tools\<close>, \<open>_refresh_resources\<close> and \<open>_refresh_prompts\<close>:
  the request and the elements of \<open>response.result.get(key, [])\<close>, with \<open>None\<close> when
  there is nothing to store. An exception leaves the loader as the request left it: the
  id drawn, the text written and the line read stay.
\<close>

definition fetch_list ::
  "jsonlib \<Rightarrow> MCPLoader \<Rightarrow> string \<Rightarrow> string \<Rightarrow> string \<Rightarrow> MCPLoader \<times> json list option outcome" where
  "fetch_list J l sid method key =
     (case send_request J l sid method (JObj []) of
        (l1, None) \<Rightarrow> (l1, Return None)
      | (l1, Some response) \<Rightarrow>
          if \<not> truthy (rs_result response) then (l1, Return None)
          else (case rs_result response of
                  JObj result \<Rightarrow>
                    (case py_iter (dict_get result key (JArr [])) of
                       Raise e \<Rightarrow> (l1, Raise e)
                     | Return xs \<Rightarrow> (l1, Return (Some xs)))
                | _ \<Rightarrow> (l1, Raise AttributeError)))"

definition refresh_tools ::
  "jsonlib \<Rightarrow> MCPLoader \<Rightarrow> string \<Rightarrow> MCPLoader \<times> unit outcome" where
  "refresh_tools J l sid =
     (case fetch_list J l sid ''tools/list'' ''tools'' of
        (l1, Raise e) \<Rightarrow> (l1, Raise e)
      | (l1, Return None) \<Rightarrow> (l1, Return ())
      | (l1, Return (Some xs)) \<Rightarrow>
          (case map_outcome MCPTool_from_dict xs of
             Raise e \<Rightarrow> (l1, Raise e)
           | Return ts \<Rightarrow> (upd_server l1 sid (\<lambda>s. s\<lparr>tools := ts\<rparr>), Return ())))"

definition refresh_resources ::
  "jsonlib \<Rightarrow> MCPLoader \<Rightarrow> string \<Rightarrow> MCPLoader \<times> unit outcome" where
  "refresh_resources J l sid =
     (case fetch_list J l sid ''resources/list'' ''resources'' of
        (l1, Raise e) \<Rightarrow> (l1, Raise e)
      | (l1, Return None) \<Rightarrow> (l1, Return ())
      | (l1, Return (Some xs)) \<Rightarrow>
          (case map_outcome MCPResource_from_dict xs of
             Raise e \<Rightarrow> (l1, Raise e)
           | Return rs \<Rightarrow> (upd_server l1 sid (\<lambda>s. s\<lparr>resources := rs\<rparr>), Return ())))"

definition refresh_prompts ::
  "jsonlib \<Rightarrow> MCPLoader \<Rightarrow> string \<Rightarrow> MCPLoader \<times> unit outcome" where
  "refresh_prompts J l sid =
     (case fetch_list J l sid ''prompts/list'' ''prompts'' of
        (l1, Raise e) \<Rightarrow> (l1, Raise e)
      | (l1, Return None) \<Rightarrow> (l1, Return ())
      | (l1, Return (Some xs)) \<Rightarrow>
          (case map_outcome MCPPrompt_from_dict xs of
             Raise e \<Rightarrow> (l1, Raise e)
           | Return ps \<Rightarrow> (upd_server l1 sid (\<lambda>s. s\<lparr>prompts := ps\<rparr>), Return ())))"

text \<open>
  \<open>_initialize\<close>. An exception leaves the loader as the statements before it made it,
  the requests of a refresh that raised included; \<open>start\<close> goes on from there.
\<close>

definition initialize_params :: json where
  "initialize_params = JObj
     [(''protocolVersion'', JStr ''2024-11-05''),
      (''capabilities'', JObj []),
      (''clientInfo'', JObj [(''name'', JStr ''UFO-Galaxy''), (''version'', JStr ''1.0.0'')])]"

definition initialize :: "jsonlib \<Rightarrow> MCPLoader \<Rightarrow> string \<Rightarrow> MCPLoader \<times> bool outcome" where
  "initialize J l sid =
     (case send_request J l sid ''initialize'' initialize_params of
        (l1, None) \<Rightarrow> (l1, Return False)
      | (l1, Some response) \<Rightarrow>
          if \<not> truthy (rs_result response) then (l1, Return False)
          else (case rs_result response of
                  JObj result \<Rightarrow>
                    (let l2 = upd_server l1 sid
                                (\<lambda>s. s\<lparr>server_info := dict_get result ''serverInfo'' (JObj []),
                                       capabilities := dict_get result ''capabilities'' (JObj [])\<rparr>)
                     in case send_notification J l2 sid ''notifications/initialized'' JNull of
                          Raise e \<Rightarrow> (l2, Raise e)
                        | Return l3 \<Rightarrow>
                            (case refresh_tools J l3 sid of
                               (l4, Raise e) \<Rightarrow> (l4, Raise e)
                             | (l4, Return _) \<Rightarrow>
                                 (case refresh_resources J l4 sid of
                                    (l5, Raise e) \<Rightarrow> (l5, Raise e)
                                  | (l5, Return _) \<Rightarrow>
                                      (case refresh_prompts J l5 sid of
                                         (l6, Raise e) \<Rightarrow> (l6, Raise e)
                                       | (l6, Return _) \<Rightarrow> (l6, Return True)))))
                | _ \<Rightarrow> (l1, Raise AttributeError)))"

subsection \<open>load, start, stop, unload\<close>

definition start :: "jsonlib \<Rightarrow> os \<Rightarrow> MCPLoader \<Rightarrow> string \<Rightarrow> MCPLoader \<times> bool" where
  "start J sys l sid =
     (case map_of (servers l) sid of
        None \<Rightarrow> (l, False)
      | Some server \<Rightarrow>
          (let l1 = upd_server l sid (\<lambda>s. s\<lparr>server_status := STARTING\<rparr>)
           in case popen sys (command server @ args server)
                     (fold (\<lambda>kv. AList.update (fst kv) (snd kv)) (env server) (environ sys))
                     (if cwd server = [] then None else Some (cwd server)) of
                Raise e \<Rightarrow>
                  (mcp_log_append
                     (upd_server l1 sid
                        (\<lambda>s. s\<lparr>server_status := SERVER_ERROR,
                               server_error := Some (ExceptionText e)\<rparr>))
                     (LogStartFailed e),
                   False)
              | Return proc \<Rightarrow>
                  (let p = next_process l1;
                       l2 = upd_server
                              (l1\<lparr>processes := (processes l1)(p \<mapsto> proc), next_process := Suc p\<rparr>)
                              sid (\<lambda>s. s\<lparr>process := Some p\<rparr>)
                   in if returncode proc \<noteq> None
                      then (upd_server l2 sid
                              (\<lambda>s. s\<lparr>server_status := SERVER_ERROR,
                                     server_error := Some (StderrOutput (stderr_text proc))\<rparr>),
                            False)
                      else (case initialize J l2 sid of
                              (l3, Raise e) \<Rightarrow>
                                (mcp_log_append
                                   (upd_server l3 sid
                                      (\<lambda>s. s\<lparr>server_status := SERVER_ERROR,
                                             server_error := Some (ExceptionText e)\<rparr>))
                                   (LogStartFailed e),
                                 False)
                            | (l3, Return ok) \<Rightarrow>
                                (mcp_log_append
                                   (upd_server l3 sid (\<lambda>s. s\<lparr>server_status := RUNNING\<rparr>))
                                   (LogStarted (server_name server) sid),
                                 True)))))"

text \<open>\<open>terminate()\<close>, \<open>wait(timeout=5)\<close> and, when that raises, \<open>kill()\<close>.\<close>

definition terminate_process :: "MCPLoader \<Rightarrow> nat \<Rightarrow> MCPLoader" where
  "terminate_process l p =
     (case processes l p of
        None \<Rightarrow> l
      | Some proc \<Rightarrow>
          l\<lparr>processes := (processes l)(p \<mapsto>
               (case returncode proc of
                  Some c \<Rightarrow> proc
                | None \<Rightarrow>
                    if ignores_terminate proc
                    then proc\<lparr>signals := signals proc @ [SIGTERM, SIGKILL], returncode := Some (- 9)\<rparr>
                    else proc\<lparr>signals := signals proc @ [SIGTERM], returncode := Some (- 15)\<rparr>))\<rparr>)"

definition stop :: "MCPLoader \<Rightarrow> string \<Rightarrow> MCPLoader \<times> bool" where
  "stop l sid =
     (case map_of (servers l) sid of
        None \<Rightarrow> (l, False)
      | Some server \<Rightarrow>
          (let l1 = (case process server of
                       None \<Rightarrow> l
                     | Some p \<Rightarrow> upd_server (terminate_process l p) sid (\<lambda>s. s\<lparr>process := None\<rparr>))
           in (mcp_log_append (upd_server l1 sid (\<lambda>s. s\<lparr>server_status := STOPPED\<rparr>))
                 (LogStopped (server_name server)),
               True)))"

text \<open>
  \<open>str.split()\<close>: the white space of \<open>str.isspace\<close> below code point 256, which
  has the next-line control U+0085 and the no-break space U+00A0 beside the ASCII ones.
\<close>

definition is_space :: "char \<Rightarrow> bool" where
  "is_space c = (c \<in> set [CHR 0x09, CHR 0x0A, CHR 0x0B, CHR 0x0C, CHR 0x0D,
                           CHR 0x1C, CHR 0x1D, CHR 0x1E, CHR 0x1F, CHR 0x20,
                           CHR 0x85, CHR 0xA0])"

fun split_words :: "string \<Rightarrow> string \<Rightarrow> string list" where
  "split_words word [] = (if word = [] then [] else [word])"
| "split_words word (c # cs) =
     (if is_space c then (if word = [] then split_words [] cs else word # split_words [] cs)
      else split_words (word @ [c]) cs)"

definition py_split :: "string \<Rightarrow> string list" where
  "py_split s = split_words [] s"

datatype command_arg = CmdStr string | CmdList "string list"

text \<open>
  The dictionaries that \<open>load\<close> and \<open>unload\<close> return, by their \<open>success\<close> member:
  \<open>LoadFailed error server_id\<close>, \<open>Loaded server_id name status\<close>,
  \<open>UnloadFailed\<close> (no such server) and \<open>Unloaded server_id name\<close>.
\<close>

datatype load_result =
    LoadFailed "error_text option" string
  | Loaded string string string

datatype unload_result = UnloadFailed | Unloaded string string

text \<open>\<open>load\<close>; \<open>uid\<close> is the text of \<open>str(uuid.uuid4())[:8]\<close>.\<close>

definition load ::
  "jsonlib \<Rightarrow> os \<Rightarrow> real \<Rightarrow> string \<Rightarrow> MCPLoader \<Rightarrow> string \<Rightarrow> command_arg
     \<Rightarrow> string list option \<Rightarrow> (string \<times> string) list option \<Rightarrow> string \<Rightarrow> bool
     \<Rightarrow> MCPLoader \<times> load_result" where
  "load J sys now uid l name cmd arguments environment dir auto_start =
     (let server =
            \<lparr>server_id = uid, server_name = name,
             command = (case cmd of CmdStr s \<Rightarrow> py_split s | CmdList xs \<Rightarrow> xs),
             args = (case arguments of None \<Rightarrow> [] | Some xs \<Rightarrow> xs),
             env = (case environment of None \<Rightarrow> [] | Some kvs \<Rightarrow> kvs),
             cwd = dir, server_status = STOPPED, process = None, server_error = None,
             tools = [], resources = [], prompts = [],
             server_info = JObj [], capabilities = JObj [], created_at = now\<rparr>;
          l1 = l\<lparr>servers := AList.update uid server (servers l)\<rparr>
      in if auto_start
         then (case start J sys l1 uid of
                 (l2, False) \<Rightarrow>
                   (l2, LoadFailed
                          (case map_of (servers l2) uid of
                             None \<Rightarrow> None | Some s \<Rightarrow> server_error s)
                          uid)
               | (l2, True) \<Rightarrow>
                   (l2, Loaded uid name
                          (case map_of (servers l2) uid of
                             None \<Rightarrow> [] | Some s \<Rightarrow> MCPServerStatus_value (server_status s))))
         else (l1, Loaded uid name (MCPServerStatus_value STOPPED)))"

definition unload :: "MCPLoader \<Rightarrow> string \<Rightarrow> MCPLoader \<times> unload_result" where
  "unload l sid =
     (case map_of (servers l) sid of
        None \<Rightarrow> (l, UnloadFailed)
      | Some server \<Rightarrow>
          (let l1 = fst (stop l sid)
           in (l1\<lparr>servers := AList.delete sid (servers l1)\<rparr>, Unloaded sid (server_name server))))"

text \<open>
  \<open>call_tool\<close>; the failures are named by their text: no such server, server not
  running, request failed.
\<close>

datatype tool_result =
    NoSuchServer
  | ServerNotRunning
  | ToolError json
  | ToolResult json
  | RequestFailed

definition call_tool ::
  "jsonlib \<Rightarrow> MCPLoader \<Rightarrow> string \<Rightarrow> string \<Rightarrow> json \<Rightarrow> MCPLoader \<times> tool_result" where
  "call_tool J l sid name arguments =
     (case map_of (servers l) sid of
        None \<Rightarrow> (l, NoSuchServer)
      | Some server \<Rightarrow>
          if server_status server \<noteq> RUNNING then (l, ServerNotRunning)
          else (case send_request J l sid ''tools/call''
                       (JObj [(''name'', JStr name), (''arguments'', py_or arguments (JObj []))]) of
                  (l1, None) \<Rightarrow> (l1, RequestFailed)
                | (l1, Some response) \<Rightarrow>
                    if truthy (rs_error response) then (l1, ToolError (rs_error response))
                    else (l1, ToolResult (rs_result response))))"

text \<open>
  A run of requests on one loader, one after the other, and the ids of the requests
  built on the way, each with the server it goes to.
\<close>

fun send_requests ::
  "jsonlib \<Rightarrow> MCPLoader \<Rightarrow> (string \<times> string \<times> json) list \<Rightarrow> MCPLoader" where
  "send_requests J l [] = l"
| "send_requests J l ((sid, method, params) # calls) =
     send_requests J (fst (send_request J l sid method params)) calls"


section \<open>Tool servers (core/mcp\_manager.py)\<close>





section \<open>Examples\<close>

text \<open>
  A \<open>json\<close> library given by a table of texts and the values they denote, for the
  examples below: \<open>loads\<close> looks the text up, \<open>dumps\<close> the value.
\<close>

definition table_json :: "(string \<times> json) list \<Rightarrow> jsonlib" where
  "table_json frames =
     \<lparr>dumps = (\<lambda>v. case find (\<lambda>fr. snd fr = v) frames of None \<Rightarrow> ''null'' | Some fr \<Rightarrow> fst fr),
      loads = map_of frames\<rparr>"

text \<open>The message of test\_device\_communication.py, and its text.\<close>

definition click_message :: DeviceMessage where
  "click_message =
     \<lparr>type = COMMAND, action = JStr ''click'',
      payload = JObj [(''x'', JNum 100), (''y'', JNum 200)],
      message_id = JStr ''1a2b3c4d'', timestamp = JNum 1700000000,
      device_id = JStr ''android_001'', correlation_id = JStr ''''\<rparr>"

definition click_text :: string where
  \<open>click_text = ''{"type": "command", "action": "click", "payload": {"x": 100, "y": 200}, "message_id": "1a2b3c4d", "timestamp": 1700000000.0, "device_id": "android_001", "correlation_id": ""}''\<close>

text \<open>
  A manager with two open sockets and no registered device, then with the device d1
  connected on socket 0 at time 0.
\<close>

definition example_socket :: WebSocket where
  "example_socket = \<lparr>ws_closed = False, ws_broken = False, ws_sent = []\<rparr>"

definition example_uuids :: "nat \<Rightarrow> string" where
  "example_uuids k = (if k = 0 then ''1a2b3c4d'' else if k = 1 then ''5e6f7a8b'' else ''9c0d1e2f'')"

definition comm0 :: comm where
  "comm0 = DeviceCommunication_init (\<lambda>s. if s \<le> 1 then Some example_socket else None) [] example_uuids"

definition comm1 :: comm where
  "comm1 = fst (connect 0 comm0 ''d1'' 0)"

definition conn1 :: DeviceConnection where
  "conn1 = \<lparr>conn_device_id = ''d1'', websocket = Some 0, connected_at = 0,
             last_heartbeat = 0, last_message = 0,
             messages_sent = 0, messages_received = 0, commands_executed = 0,
             errors = 0, status = ''connected'', pending_requests = []\<rparr>"

definition heartbeat_text :: string where
  \<open>heartbeat_text = ''{"type": "heartbeat", "device_id": "d1"}''\<close>

definition heartbeat_json :: jsonlib where
  "heartbeat_json = table_json
     [(heartbeat_text, JObj [(''type'', JStr ''heartbeat''), (''device_id'', JStr ''d1'')])]"

text \<open>Texts without a usable type, and a manager with a handler for the action ping.\<close>

definition ping_text :: string where
  \<open>ping_text = ''{"action": "ping"}''\<close>

definition bogus_text :: string where
  \<open>bogus_text = ''{"type": "bogus"}''\<close>

definition ping_json :: jsonlib where
  "ping_json = table_json
     [(ping_text, JObj [(''action'', JStr ''ping'')]),
      (bogus_text, JObj [(''type'', JStr ''bogus'')]),
      (''[1, 2]'', JArr [JNum 1, JNum 2])]"

definition comm_ping :: comm where
  "comm_ping = register_handler comm1 ''ping'' (\<lambda>d m. Return (JObj [(''pong'', JBool True)]))"

text \<open>
  Observations of the correlation tables: the future registered under a message id in
  the table of the connection object \<open>r\<close>, and the futures registered in the tables of
  the connections that the map names, which are the ones an inbound response can reach.
\<close>

definition pending_entry :: "comm \<Rightarrow> nat \<Rightarrow> string \<Rightarrow> nat option" where
  "pending_entry w r mid =
     (case conn_objects w r of None \<Rightarrow> None | Some conn \<Rightarrow> map_of (pending_requests conn) mid)"

definition registered_futures :: "comm \<Rightarrow> nat list" where
  "registered_futures w =
     concat (map (\<lambda>dr. case conn_objects w (snd dr) of
                          None \<Rightarrow> []
                        | Some conn \<Rightarrow> map snd (pending_requests conn))
               (connections w))"

text \<open>
  The inbound texts that the read loops deliver, in arrival order: each with the time
  and the device id under which \<open>handle_message\<close> is called.
\<close>

fun handle_messages :: "jsonlib \<Rightarrow> comm \<Rightarrow> (real \<times> string \<times> string) list \<Rightarrow> comm" where
  "handle_messages J w [] = w"
| "handle_messages J w ((now, d, message_data) # rest) =
     handle_messages J (fst (handle_message J now w d message_data)) rest"

text \<open>
  A command to d1 at time 10, its text, and the call that waits for the answer with the
  default timeout.
\<close>

definition click_d1_text :: string where
  \<open>click_d1_text = ''{"type": "command", "action": "click", "payload": {"x": 100, "y": 200}, "message_id": "1a2b3c4d", "timestamp": 10.0, "device_id": "d1", "correlation_id": ""}''\<close>

definition click_json :: jsonlib where
  "click_json = table_json
     [(click_d1_text,
       to_dict \<lparr>type = COMMAND, action = JStr ''click'',
                payload = JObj [(''x'', JNum 100), (''y'', JNum 200)],
                message_id = JStr ''1a2b3c4d'', timestamp = JNum 10,
                device_id = JStr ''d1'', correlation_id = JStr ''''\<rparr>)]"

definition click_params :: json where
  "click_params = JObj [(''x'', JNum 100), (''y'', JNum 200)]"

definition comm_click :: comm where
  "comm_click = fst (send_command_begin click_json 10 comm1 ''d1'' ''click'' click_params None)"

definition click_call :: pending_call where
  "click_call = \<lparr>call_conn = 0, call_message_id = ''1a2b3c4d'', call_future = 0,
                  call_deadline = 40\<rparr>"

text \<open>
  Two states agree on the map and on every correlation table: what stays as it was
  while inbound texts are handled.
\<close>

definition tables_kept :: "comm \<Rightarrow> comm \<Rightarrow> bool" where
  "tables_kept w w' \<longleftrightarrow>
     connections w' = connections w
     \<and> (\<forall>r. map_option pending_requests (conn_objects w' r)
             = map_option pending_requests (conn_objects w r))"

text \<open>The device d1 connects again, on socket 1 at time 20, while the call waits.\<close>

definition comm_again :: comm where
  "comm_again = fst (connect 20 comm_click ''d1'' 1)"

definition click_response_text :: string where
  \<open>click_response_text = ''{"type": "response", "payload": {"ok": true}, "correlation_id": "1a2b3c4d"}''\<close>

definition response_json :: jsonlib where
  "response_json = table_json
     [(click_response_text,
       JObj [(''type'', JStr ''response''), (''payload'', JObj [(''ok'', JBool True)]),
             (''correlation_id'', JStr ''1a2b3c4d'')])]"

text \<open>
  What a pass of the heartbeat loop keeps: the configured timeout, the heartbeat time,
  the socket and the status of every connection object; the calls made and the events
  emitted so far; the sockets, closed ones staying closed; and each entry of the map,
  unless the pass removes it.
\<close>

definition sweep_kept :: "comm \<Rightarrow> comm \<Rightarrow> bool" where
  "sweep_kept w w' \<longleftrightarrow>
     heartbeat_timeout w' = heartbeat_timeout w
     \<and> (\<forall>r. map_option last_heartbeat (conn_objects w' r)
             = map_option last_heartbeat (conn_objects w r))
     \<and> (\<forall>r. map_option websocket (conn_objects w' r) = map_option websocket (conn_objects w r))
     \<and> (\<forall>r. map_option status (conn_objects w' r) = map_option status (conn_objects w r))
     \<and> set (registry_calls w) \<subseteq> set (registry_calls w')
     \<and> set (events w) \<subseteq> set (events w')
     \<and> (\<forall>s. sockets w s \<noteq> None \<longrightarrow> sockets w' s \<noteq> None)
     \<and> (\<forall>s sock. sockets w s = Some sock \<and> ws_closed sock
            \<longrightarrow> (\<exists>sock'. sockets w' s = Some sock' \<and> ws_closed sock'))
     \<and> (\<forall>d. map_of (connections w') d = None
            \<or> map_of (connections w') d = map_of (connections w) d)"

text \<open>The heartbeat probes sent to d1 by the passes at times 30 and 59, and their texts.\<close>

definition probe30_text :: string where
  \<open>probe30_text = ''{"type": "heartbeat", "action": "", "payload": {}, "message_id": "1a2b3c4d", "timestamp": 30.0, "device_id": "d1", "correlation_id": ""}''\<close>

definition probe59_text :: string where
  \<open>probe59_text = ''{"type": "heartbeat", "action": "", "payload": {}, "message_id": "1a2b3c4d", "timestamp": 59.0, "device_id": "d1", "correlation_id": ""}''\<close>

definition probe_json :: jsonlib where
  "probe_json = table_json
     [(probe30_text,
       to_dict \<lparr>type = HEARTBEAT, action = JStr '''', payload = JObj [],
                message_id = JStr ''1a2b3c4d'', timestamp = JNum 30,
                device_id = JStr ''d1'', correlation_id = JStr ''''\<rparr>),
      (probe59_text,
       to_dict \<lparr>type = HEARTBEAT, action = JStr '''', payload = JObj [],
                message_id = JStr ''1a2b3c4d'', timestamp = JNum 59,
                device_id = JStr ''d1'', correlation_id = JStr ''''\<rparr>),
      (heartbeat_text, JObj [(''type'', JStr ''heartbeat''), (''device_id'', JStr ''d1'')])]"

text \<open>
  An operating system with two commands: one that exits with status 2 before the
  start-up sleep is over, and a server that answers the first request with an empty
  result and the second with a response carrying the id 99.
\<close>

definition initialize_request_text :: string where
  \<open>initialize_request_text = ''{"jsonrpc": "2.0", "id": 1, "method": "initialize", "params": {"protocolVersion": "2024-11-05", "capabilities": {}, "clientInfo": {"name": "UFO-Galaxy", "version": "1.0.0"}}}''\<close>

definition list_request_text :: string where
  \<open>list_request_text = ''{"jsonrpc": "2.0", "id": 2, "method": "tools/list", "params": {}}''\<close>

definition manager_list_text :: string where
  \<open>manager_list_text = ''{"jsonrpc": "2.0", "id": 1, "method": "tools/list", "params": {}}''\<close>

definition manager_call_text :: string where
  \<open>manager_call_text = ''{"jsonrpc": "2.0", "id": 1, "method": "tools/call", "params": {"name": "ping", "arguments": {}}}''\<close>

definition initialize_response_text :: string where
  \<open>initialize_response_text = ''{"jsonrpc": "2.0", "id": 1, "result": {}}''\<close>

definition other_response_text :: string where
  \<open>other_response_text = ''{"jsonrpc": "2.0", "id": 99, "result": {"tools": []}}''\<close>

definition rpc_json :: jsonlib where
  "rpc_json = table_json
     [(initialize_request_text,
       JObj [(''jsonrpc'', JStr ''2.0''), (''id'', JNum 1), (''method'', JStr ''initialize''),
             (''params'', initialize_params)]),
      (list_request_text,
       JObj [(''jsonrpc'', JStr ''2.0''), (''id'', JNum 2), (''method'', JStr ''tools/list''),
             (''params'', JObj [])]),
      (manager_list_text,
       JObj [(''jsonrpc'', JStr ''2.0''), (''id'', JNum 1), (''method'', JStr ''tools/list''),
             (''params'', JObj [])]),
      (manager_call_text,
       JObj [(''jsonrpc'', JStr ''2.0''), (''id'', JNum 1), (''method'', JStr ''tools/call''),
             (''params'', JObj [(''name'', JStr ''ping''), (''arguments'', JObj [])])]),
      (initialize_response_text,
       JObj [(''jsonrpc'', JStr ''2.0''), (''id'', JNum 1), (''result'', JObj [])]),
      (other_response_text,
       JObj [(''jsonrpc'', JStr ''2.0''), (''id'', JNum 99),
             (''result'', JObj [(''tools'', JArr [])])])]"

definition failed_process :: Popen where
  "failed_process =
     \<lparr>returncode = Some 2, stdin_written = [], stdin_broken = True, stdout_lines = [],
      stderr_text = ''python: cannot open file missing.py'', signals = [],
      ignores_terminate = False\<rparr>"

definition server_process :: Popen where
  "server_process =
     \<lparr>returncode = None, stdin_written = [], stdin_broken = False,
      stdout_lines = [initialize_response_text, other_response_text],
      stderr_text = [], signals = [], ignores_terminate = False\<rparr>"

definition example_os :: os where
  "example_os =
     \<lparr>environ = [(''PATH'', ''/usr/bin'')],
      popen = (\<lambda>argv env dir.
                 if argv = [''python'', ''missing.py''] then Return failed_process
                 else if argv = [''echo-server''] then Return server_process
                 else Raise OSError)\<rparr>"

definition loader_failed :: MCPLoader where
  "loader_failed =
     fst (load rpc_json example_os 0 ''ab12cd34'' MCPLoader_init ''broken''
            (CmdStr ''python missing.py'') None None [] True)"






text \<open>
  Every entry that holds the future \<open>f\<close>, in the tables of the connections that the map
  names, has the key \<open>mid\<close>.
\<close>

definition registered_under :: "comm \<Rightarrow> nat \<Rightarrow> string \<Rightarrow> bool" where
  "registered_under w f mid \<longleftrightarrow>
     (\<forall>dr \<in> set (connections w).
        case conn_objects w (snd dr) of
          None \<Rightarrow> True
        | Some conn \<Rightarrow> (\<forall>kf \<in> set (pending_requests conn). snd kf = f \<longrightarrow> fst kf = mid))"

text \<open>
  Two responses without payload, one that carries another id than the call to d1 and
  one that carries its id, and a library that knows them and the text of the command.
\<close>

definition stray_response_text :: string where
  \<open>stray_response_text = ''{"type": "response", "correlation_id": "ffff0000"}''\<close>

definition late_response_text :: string where
  \<open>late_response_text = ''{"type": "response", "correlation_id": "1a2b3c4d"}''\<close>

definition late_json :: jsonlib where
  "late_json = table_json
     [(click_d1_text,
       to_dict \<lparr>type = COMMAND, action = JStr ''click'',
                payload = JObj [(''x'', JNum 100), (''y'', JNum 200)],
                message_id = JStr ''1a2b3c4d'', timestamp = JNum 10,
                device_id = JStr ''d1'', correlation_id = JStr ''''\<rparr>),
      (stray_response_text,
       JObj [(''type'', JStr ''response''), (''correlation_id'', JStr ''ffff0000'')]),
      (late_response_text,
       JObj [(''type'', JStr ''response''), (''correlation_id'', JStr ''1a2b3c4d'')])]"

section \<open>Properties\<close>

lemma MessageType_of_value: "MessageType_of (JStr (MessageType_value t)) = Return t"
  by (cases t) (simp_all add: MessageType_members_def)

subsection \<open>The wire codec\<close>

lemma to_dict_type:
  "MessageType_of (dict_get
      [(''type'', JStr (MessageType_value (type x))), (''action'', action x),
       (''payload'', payload x), (''message_id'', message_id x),
       (''timestamp'', timestamp x), (''device_id'', device_id x),
       (''correlation_id'', correlation_id x)] ''type'' (JStr ''command'')) = Return (type x)"
  by (simp add: dict_get_def MessageType_of_value del: MessageType_of.simps)

text \<open>
  C9: decoding the encoding of a device message gives the message back, equal in every
  field (type, action, payload, message\_id, timestamp, device\_id, correlation\_id). The
  hypothesis is the contract of the standard library alone, at the dictionary that
  \<open>to_dict\<close> builds: \<open>json.loads(json.dumps(d))\<close> is \<open>d\<close>. (No \<open>jsonlib\<close> has
  it at every \<open>d\<close>: there are more values of \<open>json\<close> than texts.)
\<close>

theorem from_json_to_json:
  assumes "loads J (dumps J (to_dict x)) = Some (to_dict x)"
  shows "from_json J now (to_json J x) = Return x"
proof -
  from assms have l: "loads J (to_json J x) = Some (to_dict x)"
    by (simp add: to_json_def)
  then show ?thesis
    by (simp add: from_json_def to_dict_def to_dict_type del: MessageType_of.simps)
      (simp add: dict_get_def)
qed

theorem from_json_to_json_witness:
  "loads (table_json [(click_text, to_dict click_message)])
     (dumps (table_json [(click_text, to_dict click_message)]) (to_dict click_message))
     = Some (to_dict click_message)
   \<and> to_json (table_json [(click_text, to_dict click_message)]) click_message = click_text
   \<and> from_json (table_json [(click_text, to_dict click_message)]) 0
       (to_json (table_json [(click_text, to_dict click_message)]) click_message)
     = Return click_message"
proof -
  have h: "loads (table_json [(click_text, to_dict click_message)])
     (dumps (table_json [(click_text, to_dict click_message)]) (to_dict click_message))
     = Some (to_dict click_message)"
    by (simp add: table_json_def)
  have t: "to_json (table_json [(click_text, to_dict click_message)]) click_message = click_text"
    by (simp add: table_json_def to_json_def)
  show ?thesis using h t from_json_to_json [OF h, of 0] by simp
qed

lemma get_conn_comm1: "get_conn comm1 ''d1'' = Some (0, conn1)"
  by (simp add: comm1_def comm0_def connect_def DeviceCommunication_init_def get_conn_def
      update_status_def emit_event_def log_append_def conn1_def Let_def)

subsection \<open>Heartbeats\<close>

text \<open>
  C8: a connected device session that receives a message of type heartbeat sets the
  connection's \<open>last_heartbeat\<close> to the current time and replies with a message of
  type ack and action heartbeat.
\<close>

theorem heartbeat_ack:
  assumes "get_conn w d = Some (r, conn)"
    and "loads J data = Some (JObj raw_msg)"
    and "map_of raw_msg ''type'' = Some (JStr ''heartbeat'')"
  shows "snd (handle_message J now w d data) =
           Return (Some \<lparr>type = ACK, action = JStr ''heartbeat'', payload = JObj [],
                         message_id = JStr (uuid4 w (uuid_drawn w)), timestamp = JNum now,
                         device_id = JStr '''', correlation_id = JStr ''''\<rparr>)
       \<and> get_conn (fst (handle_message J now w d data)) d =
           Some (r, conn\<lparr>last_heartbeat := now\<rparr>)"
proof -
  from assms(1) have m: "map_of (connections w) d = Some r" and o: "conn_objects w r = Some conn"
    by (auto simp: get_conn_def split: option.splits)
  show ?thesis
    using assms m o
    by (simp add: handle_message_def handle_message_try_def dict_get_def upd_conn_def
        new_message_def get_conn_def)
qed

theorem heartbeat_ack_witness:
  "get_conn comm1 ''d1'' = Some (0, conn1)
   \<and> loads heartbeat_json heartbeat_text
       = Some (JObj [(''type'', JStr ''heartbeat''), (''device_id'', JStr ''d1'')])
   \<and> map_of [(''type'', JStr ''heartbeat''), (''device_id'', JStr ''d1'')] ''type''
       = Some (JStr ''heartbeat'')
   \<and> snd (handle_message heartbeat_json 45 comm1 ''d1'' heartbeat_text) =
       Return (Some \<lparr>type = ACK, action = JStr ''heartbeat'', payload = JObj [],
                     message_id = JStr (uuid4 comm1 (uuid_drawn comm1)), timestamp = JNum 45,
                     device_id = JStr '''', correlation_id = JStr ''''\<rparr>)
   \<and> get_conn (fst (handle_message heartbeat_json 45 comm1 ''d1'' heartbeat_text)) ''d1'' =
       Some (0, conn1\<lparr>last_heartbeat := 45\<rparr>)"
proof -
  have a: "loads heartbeat_json heartbeat_text
       = Some (JObj [(''type'', JStr ''heartbeat''), (''device_id'', JStr ''d1'')])"
    by (simp add: heartbeat_json_def table_json_def)
  have b: "map_of [(''type'', JStr ''heartbeat''), (''device_id'', JStr ''d1'')] ''type''
       = Some (JStr ''heartbeat'')"
    by simp
  show ?thesis
    using get_conn_comm1 a b heartbeat_ack [OF get_conn_comm1 a b, of 45] by simp
qed

subsection \<open>Malformed messages\<close>

lemma handle_message_returns: "\<exists>reply. snd (handle_message J now w d data) = Return reply"
  by (auto simp: handle_message_def split: option.splits prod.splits outcome.splits)

text \<open>
  C7 as stated fails: a JSON object without a type member is no malformed message for
  the code. \<open>from_json\<close> takes it for a command, and the handler registered for its
  action answers it; nothing is logged.
\<close>

theorem handle_message_untyped_counterexample:
  "loads ping_json ping_text = Some (JObj [(''action'', JStr ''ping'')])
   \<and> snd (handle_message ping_json 5 comm_ping ''d1'' ping_text) =
       Return (Some \<lparr>type = RESPONSE, action = JStr ''ping'',
                     payload = JObj [(''pong'', JBool True)],
                     message_id = JStr ''1a2b3c4d'', timestamp = JNum 5,
                     device_id = JStr '''', correlation_id = JStr ''''\<rparr>)
   \<and> logged (fst (handle_message ping_json 5 comm_ping ''d1'' ping_text)) = logged comm_ping"
  by (simp add: ping_json_def table_json_def ping_text_def comm_ping_def register_handler_def
      comm1_def comm0_def connect_def DeviceCommunication_init_def get_conn_def
      update_status_def emit_event_def log_append_def Let_def
      handle_message_def handle_message_try_def dict_get_def from_json_def
      MessageType_members_def dispatch_def upd_conn_def call_handler_def new_message_def
      example_uuids_def)

lemma dict_get_None: "map_of kvs k = None \<Longrightarrow> dict_get kvs k d = d"
  by (simp add: dict_get_def)

lemma dict_get_Some: "map_of kvs k = Some v \<Longrightarrow> dict_get kvs k d = v"
  by (simp add: dict_get_def)

text \<open>
  C7, amended: handling a text never raises. For a connected device, a text that is not
  JSON, a JSON value that is not an object, and an object without payload whose type is
  neither a message type nor handshake are logged and get no reply, and nothing else
  changes. An object without a type member is decoded as a command: it is counted as
  received and goes to the message callbacks and to the handler of its action, whose
  result, when there is one, is the reply.
\<close>

theorem handle_message_malformed:
  "(\<exists>reply. snd (handle_message J now w d data) = Return reply)
   \<and> (get_conn w d = Some (r, conn) \<longrightarrow>
        (loads J data = None \<longrightarrow>
           handle_message J now w d data
             = (log_append w (LogHandleFailed d JSONDecodeError), Return None))
      \<and> (\<forall>v. loads J data = Some v \<and> (\<forall>obj. v \<noteq> JObj obj) \<longrightarrow>
           handle_message J now w d data
             = (log_append w (LogHandleFailed d AttributeError), Return None))
      \<and> (\<forall>obj t. loads J data = Some (JObj obj) \<and> map_of obj ''type'' = Some t
             \<and> map_of obj ''payload'' = None \<and> t \<noteq> JStr ''handshake''
             \<and> MessageType_of t = Raise ValueError \<longrightarrow>
           handle_message J now w d data
             = (log_append w (LogHandleFailed d ValueError), Return None))
      \<and> (\<forall>obj. loads J data = Some (JObj obj) \<and> map_of obj ''type'' = None \<longrightarrow>
           handle_message J now w d data
             = (case call_handler now
                       (upd_conn w r
                          (\<lambda>c. c\<lparr>messages_received := messages_received c + 1,
                                 last_message := now\<rparr>))
                       d
                       \<lparr>type = COMMAND,
                        action = dict_get obj ''action'' (JStr ''''),
                        payload = dict_get obj ''payload'' (JObj []),
                        message_id = dict_get obj ''message_id'' (JStr ''''),
                        timestamp = dict_get obj ''timestamp'' (JNum now),
                        device_id = dict_get obj ''device_id'' (JStr ''''),
                        correlation_id = dict_get obj ''correlation_id'' (JStr '''')\<rparr> of
                  (w1, Raise e) \<Rightarrow> (log_append w1 (LogHandleFailed d e), Return None)
                | (w1, Return reply) \<Rightarrow> (w1, Return reply))))"
proof (intro conjI impI allI)
  show "\<exists>reply. snd (handle_message J now w d data) = Return reply"
    by (rule handle_message_returns)
next
  assume "get_conn w d = Some (r, conn)" "loads J data = None"
  then show "handle_message J now w d data
             = (log_append w (LogHandleFailed d JSONDecodeError), Return None)"
    by (simp add: handle_message_def handle_message_try_def)
next
  fix v
  assume "get_conn w d = Some (r, conn)" "loads J data = Some v \<and> (\<forall>obj. v \<noteq> JObj obj)"
  then show "handle_message J now w d data
             = (log_append w (LogHandleFailed d AttributeError), Return None)"
    by (cases v) (simp_all add: handle_message_def handle_message_try_def)
next
  fix obj t
  assume c: "get_conn w d = Some (r, conn)"
    and h: "loads J data = Some (JObj obj) \<and> map_of obj ''type'' = Some t
             \<and> map_of obj ''payload'' = None \<and> t \<noteq> JStr ''handshake''
             \<and> MessageType_of t = Raise ValueError"
  then have "t \<noteq> JStr ''heartbeat''"
    by (auto simp: MessageType_members_def)
  with c h show "handle_message J now w d data
             = (log_append w (LogHandleFailed d ValueError), Return None)"
    by (simp add: handle_message_def handle_message_try_def dict_get_Some from_json_def
        del: MessageType_of.simps)
next
  fix obj
  assume c: "get_conn w d = Some (r, conn)"
    and h: "loads J data = Some (JObj obj) \<and> map_of obj ''type'' = None"
  have t: "MessageType_of (JStr ''command'') = Return COMMAND"
    by (simp add: MessageType_members_def)
  from c h show "handle_message J now w d data
             = (case call_handler now
                       (upd_conn w r
                          (\<lambda>c. c\<lparr>messages_received := messages_received c + 1,
                                 last_message := now\<rparr>))
                       d
                       \<lparr>type = COMMAND,
                        action = dict_get obj ''action'' (JStr ''''),
                        payload = dict_get obj ''payload'' (JObj []),
                        message_id = dict_get obj ''message_id'' (JStr ''''),
                        timestamp = dict_get obj ''timestamp'' (JNum now),
                        device_id = dict_get obj ''device_id'' (JStr ''''),
                        correlation_id = dict_get obj ''correlation_id'' (JStr '''')\<rparr> of
                  (w1, Raise e) \<Rightarrow> (log_append w1 (LogHandleFailed d e), Return None)
                | (w1, Return reply) \<Rightarrow> (w1, Return reply))"
    by (simp add: handle_message_def handle_message_try_def from_json_def t dispatch_def
        dict_get_None del: MessageType_of.simps)
qed

lemma get_conn_comm_ping: "get_conn comm_ping ''d1'' = Some (0, conn1)"
  using get_conn_comm1
  by (simp add: comm_ping_def register_handler_def get_conn_def cong: option.case_cong)

theorem handle_message_malformed_witness:
  "get_conn comm_ping ''d1'' = Some (0, conn1)
   \<and> loads ping_json ''not json'' = None
   \<and> handle_message ping_json 5 comm_ping ''d1'' ''not json''
       = (log_append comm_ping (LogHandleFailed ''d1'' JSONDecodeError), Return None)
   \<and> loads ping_json ''[1, 2]'' = Some (JArr [JNum 1, JNum 2])
   \<and> handle_message ping_json 5 comm_ping ''d1'' ''[1, 2]''
       = (log_append comm_ping (LogHandleFailed ''d1'' AttributeError), Return None)
   \<and> loads ping_json bogus_text = Some (JObj [(''type'', JStr ''bogus'')])
   \<and> MessageType_of (JStr ''bogus'') = Raise ValueError
   \<and> handle_message ping_json 5 comm_ping ''d1'' bogus_text
       = (log_append comm_ping (LogHandleFailed ''d1'' ValueError), Return None)
   \<and> loads ping_json ping_text = Some (JObj [(''action'', JStr ''ping'')])
   \<and> (\<exists>reply. snd (handle_message ping_json 5 comm_ping ''d1'' ping_text) = Return reply)"
proof -
  note c = get_conn_comm_ping
  have n1: "loads ping_json ''not json'' = None"
    by (simp add: ping_json_def table_json_def ping_text_def bogus_text_def)
  have n2: "loads ping_json ''[1, 2]'' = Some (JArr [JNum 1, JNum 2])"
    by (simp add: ping_json_def table_json_def ping_text_def bogus_text_def)
  have n3: "loads ping_json bogus_text = Some (JObj [(''type'', JStr ''bogus'')])"
    by (simp add: ping_json_def table_json_def ping_text_def bogus_text_def)
  have n4: "MessageType_of (JStr ''bogus'') = Raise ValueError"
    by (simp add: MessageType_members_def)
  have n5: "loads ping_json ping_text = Some (JObj [(''action'', JStr ''ping'')])"
    by (simp add: ping_json_def table_json_def ping_text_def bogus_text_def)
  have r1: "handle_message ping_json 5 comm_ping ''d1'' ''not json''
       = (log_append comm_ping (LogHandleFailed ''d1'' JSONDecodeError), Return None)"
    using handle_message_malformed [of ping_json 5 comm_ping "''d1''" "''not json''" 0 conn1] c n1
    by simp
  have r2: "handle_message ping_json 5 comm_ping ''d1'' ''[1, 2]''
       = (log_append comm_ping (LogHandleFailed ''d1'' AttributeError), Return None)"
    using handle_message_malformed [of ping_json 5 comm_ping "''d1''" "''[1, 2]''" 0 conn1] c n2
    by simp
  have r3: "handle_message ping_json 5 comm_ping ''d1'' bogus_text
       = (log_append comm_ping (LogHandleFailed ''d1'' ValueError), Return None)"
    using handle_message_malformed [of ping_json 5 comm_ping "''d1''" bogus_text 0 conn1] c n3 n4
    by (simp del: MessageType_of.simps)
  have r4: "\<exists>reply. snd (handle_message ping_json 5 comm_ping ''d1'' ping_text) = Return reply"
    using handle_message_malformed [of ping_json 5 comm_ping "''d1''" ping_text 0 conn1]
    by blast
  show ?thesis using c n1 n2 n3 n4 n5 r1 r2 r3 r4 by (simp del: MessageType_of.simps)
qed

subsection \<open>Commands and their correlation entries\<close>

lemma pending_entry_pop: "pending_entry (pop_pending w r mid) r mid = None"
  by (simp add: pending_entry_def pop_pending_def upd_conn_def AList.delete_conv'
      split: option.splits)

lemma send_command_begin_click:
  "send_command_begin click_json 10 comm1 ''d1'' ''click'' click_params None
     = (comm_click, Inr click_call)"
  by (simp add: comm_click_def click_call_def send_command_begin_def comm1_def comm0_def
      connect_def DeviceCommunication_init_def get_conn_def update_status_def emit_event_def
      log_append_def Let_def new_message_def upd_conn_def send_def send_text_def
      example_socket_def py_or_def click_params_def example_uuids_def pop_pending_def)

lemma send_command_resume_done:
  "snd (send_command_resume t w c) \<noteq> None \<Longrightarrow>
     pending_entry (fst (send_command_resume t w c)) (call_conn c) (call_message_id c) = None"
  by (auto simp: send_command_resume_def pending_entry_pop
      split: option.splits future.splits if_splits)

lemma send_command_resume_pending:
  "futures w (call_future c) = Some FPending \<Longrightarrow>
     snd (send_command_resume t w c) = (if call_deadline c \<le> t then Some CommandTimeout else None)"
  by (simp add: send_command_resume_def)

lemma send_command_begin_cases:
  assumes "get_conn w d = Some (r, conn)" and "websocket conn = Some s"
  shows "case send_command_begin J now w d act params timeout of
           (w1, Inl res) \<Rightarrow> res = SendFailed \<and> pending_entry w1 r (uuid4 w (uuid_drawn w)) = None
         | (w1, Inr c) \<Rightarrow>
             c = \<lparr>call_conn = r, call_message_id = uuid4 w (uuid_drawn w),
                  call_future = next_future w,
                  call_deadline = now + (case timeout of
                                           None \<Rightarrow> command_timeout w
                                         | Some x \<Rightarrow> if x = 0 then command_timeout w else x)\<rparr>
             \<and> futures w1 (next_future w) = Some FPending
             \<and> pending_entry w1 r (uuid4 w (uuid_drawn w)) = Some (next_future w)"
proof -
  from assms(1) have m: "map_of (connections w) d = Some r" and o: "conn_objects w r = Some conn"
    by (auto simp: get_conn_def split: option.splits)
  show ?thesis
    using assms m o
    by (auto simp: send_command_begin_def Let_def new_message_def upd_conn_def send_def
        get_conn_def send_text_def log_append_def pop_pending_def pending_entry_def
        AList.delete_conv' AList.update_conv'
        split: option.splits prod.splits if_splits)
qed

subsection \<open>Pending calls when a session ends\<close>

lemma comm_click_pending: "futures comm_click 0 = Some FPending"
  by (simp add: comm_click_def send_command_begin_def comm1_def comm0_def
      connect_def DeviceCommunication_init_def get_conn_def update_status_def emit_event_def
      log_append_def Let_def new_message_def upd_conn_def send_def send_text_def
      example_socket_def py_or_def click_params_def example_uuids_def pop_pending_def)

lemma close_socket_frame:
  "futures (close_socket w s) = futures w" "conn_objects (close_socket w s) = conn_objects w"
  "connections (close_socket w s) = connections w"
  by (simp_all add: close_socket_def split: option.splits)

lemma disconnect_frame:
  "futures (fst (disconnect w d)) = futures w"
  "conn_objects (fst (disconnect w d)) = conn_objects w"
  by (simp_all add: disconnect_def Let_def log_append_def emit_event_def update_status_def
      close_socket_frame split: option.splits)

lemma disconnect_unmaps: "map_of (connections (fst (disconnect w d))) d = None"
  by (simp add: disconnect_def Let_def log_append_def emit_event_def update_status_def
      close_socket_frame AList.delete_conv' split: option.splits)

text \<open>
  C2 as stated fails: \<open>disconnect\<close> resolves no pending call. The call of the example
  still waits one second after the device was disconnected, and ends with its own
  time-out at its deadline.
\<close>

theorem disconnect_pending_counterexample:
  "send_command_begin click_json 10 comm1 ''d1'' ''click'' click_params None
     = (comm_click, Inr click_call)
   \<and> futures (fst (disconnect comm_click ''d1'')) (call_future click_call) = Some FPending
   \<and> snd (send_command_resume 11 (fst (disconnect comm_click ''d1'')) click_call) = None
   \<and> snd (send_command_resume 40 (fst (disconnect comm_click ''d1'')) click_call)
       = Some CommandTimeout"
  by (simp add: send_command_begin_click send_command_resume_pending disconnect_frame
      comm_click_pending click_call_def)

text \<open>
  C2, amended: \<open>disconnect\<close> takes the connection out of the map, but resolves nothing:
  the futures and the correlation tables are as before. Texts that arrive for the device
  afterwards are ignored, so a call that was pending returns only when its own timeout
  has elapsed, with the time-out error.
\<close>

theorem disconnect_leaves_pending:
  "futures (fst (disconnect w d)) = futures w
   \<and> conn_objects (fst (disconnect w d)) = conn_objects w
   \<and> map_of (connections (fst (disconnect w d))) d = None
   \<and> handle_message J now (fst (disconnect w d)) d data = (fst (disconnect w d), Return None)
   \<and> (futures w (call_future c) = Some FPending \<longrightarrow>
        snd (send_command_resume t (fst (disconnect w d)) c)
          = (if call_deadline c \<le> t then Some CommandTimeout else None))"
  by (simp add: disconnect_frame disconnect_unmaps send_command_resume_pending
      handle_message_def get_conn_def)

theorem disconnect_leaves_pending_witness:
  "futures comm_click (call_future click_call) = Some FPending
   \<and> futures (fst (disconnect comm_click ''d1'')) = futures comm_click
   \<and> snd (send_command_resume 25 (fst (disconnect comm_click ''d1'')) click_call) = None
   \<and> snd (send_command_resume 41 (fst (disconnect comm_click ''d1'')) click_call)
       = Some CommandTimeout"
proof -
  have p: "futures comm_click (call_future click_call) = Some FPending"
    by (simp add: comm_click_pending click_call_def)
  note t = disconnect_leaves_pending [where w = comm_click and d = "''d1''" and c = click_call]
  have a: "futures (fst (disconnect comm_click ''d1'')) = futures comm_click"
    using t by simp
  have b: "snd (send_command_resume 25 (fst (disconnect comm_click ''d1'')) click_call) = None"
    using t [where t = 25] p by (simp add: click_call_def)
  have c: "snd (send_command_resume 41 (fst (disconnect comm_click ''d1'')) click_call)
       = Some CommandTimeout"
    using t [where t = 41] p by (simp add: click_call_def)
  show ?thesis using p a b c by simp
qed

subsection \<open>Reconnection\<close>

lemma tables_kept_refl: "tables_kept w w"
  by (simp add: tables_kept_def)

lemma tables_kept_trans: "tables_kept w w1 \<Longrightarrow> tables_kept w1 w2 \<Longrightarrow> tables_kept w w2"
  by (simp add: tables_kept_def)

lemma tables_kept_registered: "tables_kept w w' \<Longrightarrow> registered_futures w' = registered_futures w"
proof -
  assume k: "tables_kept w w'"
  have "(case conn_objects w' r of None \<Rightarrow> [] | Some conn \<Rightarrow> map snd (pending_requests conn))
      = (case conn_objects w r of None \<Rightarrow> [] | Some conn \<Rightarrow> map snd (pending_requests conn))"
    for r
  proof -
    from k have "map_option pending_requests (conn_objects w' r)
             = map_option pending_requests (conn_objects w r)"
      by (simp add: tables_kept_def)
    then show ?thesis
      by (cases "conn_objects w' r"; cases "conn_objects w r") simp_all
  qed
  with k show ?thesis
    by (simp add: registered_futures_def tables_kept_def)
qed

lemma tables_kept_upd_conn:
  "(\<And>c. pending_requests (f c) = pending_requests c) \<Longrightarrow> tables_kept w (upd_conn w r f)"
  by (simp add: tables_kept_def upd_conn_def split: option.splits)

lemma tables_kept_simple:
  "tables_kept w (log_append w l)"
  "tables_kept w (emit_event w e)"
  "tables_kept w (fst (new_message now w t a p dv c))"
  "tables_kept w (auto_register w d raw)"
  by (simp_all add: tables_kept_def log_append_def emit_event_def new_message_def
      auto_register_def Let_def split: option.splits outcome.splits)

lemma futures_simple:
  "futures (log_append w l) = futures w"
  "futures (emit_event w e) = futures w"
  "futures (fst (new_message now w t a p dv c)) = futures w"
  "futures (auto_register w d raw) = futures w"
  "futures (upd_conn w r f) = futures w"
  by (simp_all add: log_append_def emit_event_def new_message_def upd_conn_def
      auto_register_def Let_def split: option.splits outcome.splits)

lemma registered_member:
  "(d, r) \<in> set (connections w) \<Longrightarrow> conn_objects w r = Some conn \<Longrightarrow>
     map_of (pending_requests conn) cid = Some f \<Longrightarrow> f \<in> set (registered_futures w)"
  by (force simp: registered_futures_def dest: map_of_SomeD)

lemma resolve_response_kept: "tables_kept w (fst (resolve_response w r m))"
  by (simp add: resolve_response_def tables_kept_def
      split: json.splits option.splits future.splits)

lemma resolve_response_futures:
  "(d, r) \<in> set (connections w) \<Longrightarrow> f \<notin> set (registered_futures w) \<Longrightarrow>
     futures (fst (resolve_response w r m)) f = futures w f"
  by (auto simp: resolve_response_def dest: registered_member
      split: json.splits option.splits future.splits)

lemma call_handler_kept: "tables_kept w (fst (call_handler now w d m))"
  by (simp add: call_handler_def Let_def tables_kept_def emit_event_def new_message_def
      split: json.splits option.splits outcome.splits)

lemma call_handler_futures: "futures (fst (call_handler now w d m)) = futures w"
  by (simp add: call_handler_def Let_def emit_event_def new_message_def
      split: json.splits option.splits outcome.splits)

lemma handle_event_kept: "handle_event w d m = Return w1 \<Longrightarrow> tables_kept w w1 \<and> futures w1 = futures w"
  by (auto simp: handle_event_def tables_kept_simple futures_simple split: json.splits)

lemma dispatch_kept: "tables_kept w (fst (dispatch now w d r m))"
proof -
  let ?w = "upd_conn w r
                (\<lambda>c. c\<lparr>messages_received := messages_received c + 1, last_message := now\<rparr>)"
  let ?h = "upd_conn ?w r (\<lambda>c. c\<lparr>last_heartbeat := now\<rparr>)"
  let ?e = "upd_conn ?w r (\<lambda>c. c\<lparr>errors := errors c + 1\<rparr>)"
  have a: "tables_kept w ?w"
    by (rule tables_kept_upd_conn) simp
  have "tables_kept ?w (fst (dispatch now w d r m))"
  proof (cases "type m")
    case HEARTBEAT
    have b: "tables_kept ?w ?h"
      by (rule tables_kept_upd_conn) simp
    have c: "tables_kept ?h
               (fst (new_message now ?h ACK (JStr ''heartbeat'') (JObj []) (JStr [])
                       (message_id m)))"
      by (rule tables_kept_simple)
    from HEARTBEAT tables_kept_trans [OF b c] show ?thesis
      by (simp add: dispatch_def Let_def split_def)
  next
    case RESPONSE
    then show ?thesis by (simp add: dispatch_def resolve_response_kept)
  next
    case STATUS
    then show ?thesis by (simp add: dispatch_def Let_def split_def tables_kept_simple)
  next
    case EVENT
    show ?thesis
    proof (cases "handle_event ?w d m")
      case (Return w1)
      with EVENT handle_event_kept [OF Return] show ?thesis by (simp add: dispatch_def)
    next
      case (Raise e)
      with EVENT show ?thesis by (simp add: dispatch_def tables_kept_refl)
    qed
  next
    case ERROR
    have b: "tables_kept ?w ?e"
      by (rule tables_kept_upd_conn) simp
    have c: "tables_kept ?e (log_append ?e (LogDeviceError d (payload m)))"
      by (rule tables_kept_simple)
    from ERROR tables_kept_trans [OF b c] show ?thesis
      by (simp add: dispatch_def)
  next
    case COMMAND
    then show ?thesis by (simp add: dispatch_def call_handler_kept)
  next
    case ACK
    then show ?thesis by (simp add: dispatch_def call_handler_kept)
  next
    case STREAM_START
    then show ?thesis by (simp add: dispatch_def call_handler_kept)
  next
    case STREAM_DATA
    then show ?thesis by (simp add: dispatch_def call_handler_kept)
  next
    case STREAM_END
    then show ?thesis by (simp add: dispatch_def call_handler_kept)
  qed
  with a show ?thesis by (rule tables_kept_trans)
qed

lemma dispatch_futures:
  assumes "(d, r) \<in> set (connections w)" and "f \<notin> set (registered_futures w)"
  shows "futures (fst (dispatch now w d r m)) f = futures w f"
proof -
  let ?w = "upd_conn w r
                (\<lambda>c. c\<lparr>messages_received := messages_received c + 1, last_message := now\<rparr>)"
  have a: "tables_kept w ?w"
    by (rule tables_kept_upd_conn) simp
  then have c: "(d, r) \<in> set (connections ?w)" and g: "f \<notin> set (registered_futures ?w)"
    using assms by (simp_all add: tables_kept_registered) (simp add: tables_kept_def)
  show ?thesis
  proof (cases "type m")
    case RESPONSE
    with resolve_response_futures [OF c g] show ?thesis
      by (simp add: dispatch_def futures_simple)
  next
    case EVENT
    show ?thesis
    proof (cases "handle_event ?w d m")
      case (Return w1)
      with EVENT handle_event_kept [OF Return] show ?thesis
        by (simp add: dispatch_def futures_simple)
    next
      case (Raise e)
      with EVENT show ?thesis by (simp add: dispatch_def futures_simple)
    qed
  qed (simp_all add: dispatch_def Let_def split_def futures_simple call_handler_futures)
qed

lemma handle_message_try_kept:
  "tables_kept w (fst (handle_message_try J now w d r data))"
proof (cases "loads J data")
  case None
  then show ?thesis by (simp add: handle_message_try_def tables_kept_refl)
next
  case (Some v)
  show ?thesis
  proof (cases v)
    case (JObj raw)
    let ?g = "auto_register (log_append w (LogHandshake d)) d raw"
    let ?h = "upd_conn w r (\<lambda>c. c\<lparr>last_heartbeat := now\<rparr>)"
    have hs: "tables_kept w (fst (new_message now ?g t a p dv c))" for t a p dv c
      by (rule tables_kept_trans [OF tables_kept_simple(1)
            tables_kept_trans [OF tables_kept_simple(4) tables_kept_simple(3)]])
    have hb: "tables_kept w (fst (new_message now ?h t a p dv c))" for t a p dv c
      by (rule tables_kept_trans [OF tables_kept_upd_conn tables_kept_simple(3)]) simp
    have aip: "tables_kept w (fst (dispatch now (fst (new_message now w t a p dv c)) d r
                                     (snd (new_message now w t a p dv c))))" for t a p dv c
      by (rule tables_kept_trans [OF tables_kept_simple(3) dispatch_kept])
    from Some JObj hs hb aip show ?thesis
      by (simp add: handle_message_try_def split_def Let_def tables_kept_refl dispatch_kept
          split: outcome.splits)
  qed (simp_all add: Some handle_message_try_def tables_kept_refl)
qed

lemma handle_message_try_futures:
  assumes "(d, r) \<in> set (connections w)" and "f \<notin> set (registered_futures w)"
  shows "futures (fst (handle_message_try J now w d r data)) f = futures w f"
proof (cases "loads J data")
  case None
  then show ?thesis by (simp add: handle_message_try_def)
next
  case (Some v)
  show ?thesis
  proof (cases v)
    case (JObj raw)
    have k: "tables_kept w (fst (new_message now w t a p dv c))" for t a p dv c
      by (rule tables_kept_simple)
    have aip: "futures (fst (dispatch now (fst (new_message now w t a p dv c)) d r
                               (snd (new_message now w t a p dv c)))) f = futures w f"
      for t a p dv c
      using dispatch_futures [of d r "fst (new_message now w t a p dv c)" f] assms k [of t a p dv c]
      by (simp add: tables_kept_registered futures_simple) (simp add: tables_kept_def)
    from Some JObj aip dispatch_futures [OF assms] show ?thesis
      by (simp add: handle_message_try_def split_def Let_def futures_simple
          split: outcome.splits)
  qed (simp_all add: Some handle_message_try_def)
qed

lemma handle_message_kept: "tables_kept w (fst (handle_message J now w d data))"
proof (cases "get_conn w d")
  case None
  then show ?thesis by (simp add: handle_message_def tables_kept_refl)
next
  case (Some rc)
  obtain r conn where rc: "rc = (r, conn)" by (cases rc)
  obtain w1 res where t: "handle_message_try J now w d r data = (w1, res)"
    by (cases "handle_message_try J now w d r data")
  with handle_message_try_kept [of w J now d r data] have k: "tables_kept w w1" by simp
  from Some rc t k show ?thesis
    by (cases res)
      (simp_all add: handle_message_def tables_kept_trans [OF k tables_kept_simple(1)])
qed

lemma handle_message_futures:
  assumes "f \<notin> set (registered_futures w)"
  shows "futures (fst (handle_message J now w d data)) f = futures w f"
proof (cases "get_conn w d")
  case None
  then show ?thesis by (simp add: handle_message_def)
next
  case (Some rc)
  obtain r conn where rc: "rc = (r, conn)" by (cases rc)
  with Some have "map_of (connections w) d = Some r"
    by (auto simp: get_conn_def split: option.splits)
  then have m: "(d, r) \<in> set (connections w)" by (rule map_of_SomeD)
  obtain w1 res where t: "handle_message_try J now w d r data = (w1, res)"
    by (cases "handle_message_try J now w d r data")
  with handle_message_try_futures [OF m assms, of J now data] have "futures w1 f = futures w f"
    by simp
  with Some rc t show ?thesis
    by (cases res) (simp_all add: handle_message_def futures_simple)
qed

lemma handle_messages_futures:
  "f \<notin> set (registered_futures w) \<Longrightarrow> futures (handle_messages J w msgs) f = futures w f"
proof (induction msgs arbitrary: w)
  case Nil
  then show ?case by simp
next
  case (Cons msg msgs)
  obtain now d data where msg: "msg = (now, d, data)" by (cases msg)
  let ?w = "fst (handle_message J now w d data)"
  from Cons.prems have "f \<notin> set (registered_futures ?w)"
    by (simp add: tables_kept_registered [OF handle_message_kept])
  with Cons.IH [of ?w] Cons.prems msg show ?case
    by (simp add: handle_message_futures)
qed

lemma update_subset_delete:
  "distinct (map fst cs) \<Longrightarrow>
     set (AList.update d rn cs) \<subseteq> insert (d, rn) (set (AList.delete d cs))"
proof (induction cs)
  case Nil
  then show ?case by simp
next
  case (Cons p cs)
  show ?case
  proof (cases "fst p = d")
    case True
    with Cons.prems have "d \<notin> fst ` set cs" by auto
    then have "AList.delete d cs = cs" by (rule AList.delete_id)
    with True show ?thesis by auto
  next
    case False
    with Cons show ?thesis by auto
  qed
qed

lemma registered_after_update:
  assumes "pending_requests fresh = []" and "distinct (map fst cs)"
  shows "set (concat (map (\<lambda>dr. case (h(rn \<mapsto> fresh)) (snd dr) of
                                    None \<Rightarrow> []
                                  | Some conn \<Rightarrow> map snd (pending_requests conn))
                        (AList.update d rn cs)))
       \<subseteq> set (concat (map (\<lambda>dr. case h (snd dr) of
                                      None \<Rightarrow> []
                                    | Some conn \<Rightarrow> map snd (pending_requests conn))
                          (AList.delete d cs)))"
proof
  fix f
  assume "f \<in> set (concat (map (\<lambda>dr. case (h(rn \<mapsto> fresh)) (snd dr) of
                                    None \<Rightarrow> []
                                  | Some conn \<Rightarrow> map snd (pending_requests conn))
                        (AList.update d rn cs)))"
  then obtain dr where dr: "dr \<in> set (AList.update d rn cs)"
    and f: "f \<in> set (case (h(rn \<mapsto> fresh)) (snd dr) of
                        None \<Rightarrow> []
                      | Some conn \<Rightarrow> map snd (pending_requests conn))"
    by auto
  from f assms(1) have n: "snd dr \<noteq> rn"
    by (auto split: if_splits)
  with f have g: "f \<in> set (case h (snd dr) of
                        None \<Rightarrow> []
                      | Some conn \<Rightarrow> map snd (pending_requests conn))"
    by simp
  from dr update_subset_delete [OF assms(2), of d rn] n have "dr \<in> set (AList.delete d cs)"
    by auto
  with g show "f \<in> set (concat (map (\<lambda>dr. case h (snd dr) of
                                      None \<Rightarrow> []
                                    | Some conn \<Rightarrow> map snd (pending_requests conn))
                          (AList.delete d cs)))"
    by auto
qed

lemma connect_registered:
  "distinct (map fst (connections w)) \<Longrightarrow>
   set (registered_futures (fst (connect now w d ws)))
     \<subseteq> set (registered_futures (w\<lparr>connections := AList.delete d (connections w)\<rparr>))"
  using registered_after_update [where h = "conn_objects w" and rn = "next_object w"
      and d = d and cs = "connections w"
      and fresh = "\<lparr>conn_device_id = d, websocket = Some ws, connected_at = now,
                  last_heartbeat = now, last_message = now,
                  messages_sent = 0, messages_received = 0, commands_executed = 0,
                  errors = 0, status = ''connected'', pending_requests = []\<rparr>"]
  by (simp add: registered_futures_def connect_def Let_def log_append_def emit_event_def
      update_status_def)

lemma connect_frame:
  "futures (fst (connect now w d ws)) = futures w"
  "sockets (fst (connect now w d ws)) = sockets w"
  by (simp_all add: connect_def Let_def log_append_def emit_event_def update_status_def)

text \<open>
  C10: \<open>connect\<close> for a device that has a connection puts a new connection object in
  the map. No socket is closed; the old object is left as it was, out of the map, so its
  counters no longer count; the new object starts with counters at zero and an empty
  table. Whatever texts arrive afterwards, a future of the old table that no other
  connection of the map holds keeps its state, so a call that waits on it returns only
  at its deadline, with the time-out error.
\<close>

theorem connect_replaces:
  assumes "get_conn w d = Some (r, old)" and "conn_objects w (next_object w) = None"
    and "distinct (map fst (connections w))"
  shows "get_conn (fst (connect now w d ws)) d
           = Some (next_object w,
                   \<lparr>conn_device_id = d, websocket = Some ws, connected_at = now,
                    last_heartbeat = now, last_message = now,
                    messages_sent = 0, messages_received = 0, commands_executed = 0,
                    errors = 0, status = ''connected'', pending_requests = []\<rparr>)
       \<and> next_object w \<noteq> r
       \<and> conn_objects (fst (connect now w d ws)) r = Some old
       \<and> sockets (fst (connect now w d ws)) = sockets w
       \<and> futures (fst (connect now w d ws)) = futures w
       \<and> (\<forall>f msgs c t.
            f \<notin> set (registered_futures (w\<lparr>connections := AList.delete d (connections w)\<rparr>))
            \<longrightarrow> futures (handle_messages J (fst (connect now w d ws)) msgs) f = futures w f
              \<and> (call_future c = f \<and> futures w f = Some FPending \<longrightarrow>
                   snd (send_command_resume t (handle_messages J (fst (connect now w d ws)) msgs) c)
                     = (if call_deadline c \<le> t then Some CommandTimeout else None)))"
proof -
  from assms(1) have o: "conn_objects w r = Some old"
    by (auto simp: get_conn_def split: option.splits)
  with assms(2) have n: "next_object w \<noteq> r" by auto
  have a: "get_conn (fst (connect now w d ws)) d
           = Some (next_object w,
                   \<lparr>conn_device_id = d, websocket = Some ws, connected_at = now,
                    last_heartbeat = now, last_message = now,
                    messages_sent = 0, messages_received = 0, commands_executed = 0,
                    errors = 0, status = ''connected'', pending_requests = []\<rparr>)"
    by (simp add: get_conn_def connect_def Let_def log_append_def emit_event_def
        update_status_def AList.update_conv')
  have b: "conn_objects (fst (connect now w d ws)) r = Some old"
    using o n by (simp add: connect_def Let_def log_append_def emit_event_def update_status_def)
  have c: "futures (handle_messages J (fst (connect now w d ws)) msgs) f = futures w f"
    if "f \<notin> set (registered_futures (w\<lparr>connections := AList.delete d (connections w)\<rparr>))"
    for f msgs
  proof -
    from that connect_registered [OF assms(3), of now d ws]
    have "f \<notin> set (registered_futures (fst (connect now w d ws)))" by blast
    then show ?thesis
      by (simp add: handle_messages_futures connect_frame)
  qed
  show ?thesis
    using a n b c by (simp add: connect_frame send_command_resume_pending)
qed

lemma get_conn_comm_click:
  "get_conn comm_click ''d1''
     = Some (0, conn1\<lparr>messages_sent := 1, last_message := 10,
                      pending_requests := [(''1a2b3c4d'', 0)]\<rparr>)"
  by (simp add: comm_click_def send_command_begin_def comm1_def comm0_def conn1_def
      connect_def DeviceCommunication_init_def get_conn_def update_status_def emit_event_def
      log_append_def Let_def new_message_def upd_conn_def send_def send_text_def
      example_socket_def py_or_def click_params_def example_uuids_def pop_pending_def)

lemma comm_click_next: "conn_objects comm_click (next_object comm_click) = None"
  by (simp add: comm_click_def send_command_begin_def comm1_def comm0_def conn1_def
      connect_def DeviceCommunication_init_def get_conn_def update_status_def emit_event_def
      log_append_def Let_def new_message_def upd_conn_def send_def send_text_def
      example_socket_def py_or_def click_params_def example_uuids_def pop_pending_def)

lemma comm_click_others:
  "registered_futures (comm_click\<lparr>connections := AList.delete ''d1'' (connections comm_click)\<rparr>)
     = []"
  by (simp add: comm_click_def send_command_begin_def comm1_def comm0_def conn1_def
      connect_def DeviceCommunication_init_def get_conn_def update_status_def emit_event_def
      log_append_def Let_def new_message_def upd_conn_def send_def send_text_def
      example_socket_def py_or_def click_params_def example_uuids_def pop_pending_def
      registered_futures_def)

lemma comm_click_distinct: "distinct (map fst (connections comm_click))"
  by (simp add: comm_click_def send_command_begin_def comm1_def comm0_def conn1_def
      connect_def DeviceCommunication_init_def get_conn_def update_status_def emit_event_def
      log_append_def Let_def new_message_def upd_conn_def send_def send_text_def
      example_socket_def py_or_def click_params_def example_uuids_def pop_pending_def)

theorem connect_replaces_witness:
  "get_conn comm_click ''d1''
     = Some (0, conn1\<lparr>messages_sent := 1, last_message := 10,
                      pending_requests := [(''1a2b3c4d'', 0)]\<rparr>)
   \<and> conn_objects comm_click (next_object comm_click) = None
   \<and> distinct (map fst (connections comm_click))
   \<and> 0 \<notin> set (registered_futures
                 (comm_click\<lparr>connections := AList.delete ''d1'' (connections comm_click)\<rparr>))
   \<and> call_future click_call = 0 \<and> futures comm_click 0 = Some FPending
   \<and> conn_objects comm_again 0
       = Some (conn1\<lparr>messages_sent := 1, last_message := 10,
                      pending_requests := [(''1a2b3c4d'', 0)]\<rparr>)
   \<and> sockets comm_again = sockets comm_click
   \<and> futures (handle_messages response_json comm_again [(21, ''d1'', click_response_text)]) 0
       = Some FPending
   \<and> snd (send_command_resume 22
            (handle_messages response_json comm_again [(21, ''d1'', click_response_text)])
            click_call) = None
   \<and> snd (send_command_resume 40
            (handle_messages response_json comm_again [(21, ''d1'', click_response_text)])
            click_call) = Some CommandTimeout"
proof -
  have n: "0 \<notin> set (registered_futures
                 (comm_click\<lparr>connections := AList.delete ''d1'' (connections comm_click)\<rparr>))"
    by (simp add: comm_click_others)
  note t = connect_replaces [OF get_conn_comm_click comm_click_next comm_click_distinct,
      where now = 20 and ws = 1 and J = response_json, folded comm_again_def]
  from t n have q: "futures (handle_messages response_json comm_again msgs) 0 = futures comm_click 0
      \<and> (call_future c = 0 \<and> futures comm_click 0 = Some FPending \<longrightarrow>
           snd (send_command_resume t (handle_messages response_json comm_again msgs) c)
             = (if call_deadline c \<le> t then Some CommandTimeout else None))" for msgs c t
    by blast
  have f: "call_future click_call = 0" "call_deadline click_call = 40"
    by (simp_all add: click_call_def)
  from q [where msgs = "[(21, ''d1'', click_response_text)]"]
  have a: "futures (handle_messages response_json comm_again
                      [(21, ''d1'', click_response_text)]) 0 = Some FPending"
    by (simp add: comm_click_pending del: handle_messages.simps)
  from q [where c = click_call and msgs = "[(21, ''d1'', click_response_text)]" and t = 22]
  have b: "snd (send_command_resume 22
            (handle_messages response_json comm_again [(21, ''d1'', click_response_text)])
            click_call) = None"
    by (simp add: comm_click_pending f del: handle_messages.simps)
  from q [where c = click_call and msgs = "[(21, ''d1'', click_response_text)]" and t = 40]
  have c: "snd (send_command_resume 40
            (handle_messages response_json comm_again [(21, ''d1'', click_response_text)])
            click_call) = Some CommandTimeout"
    by (simp add: comm_click_pending f del: handle_messages.simps)
  from t show ?thesis
    using get_conn_comm_click comm_click_next comm_click_distinct n f comm_click_pending a b c
    by (simp del: handle_messages.simps)
qed

subsection \<open>The liveness monitor\<close>

lemma sweep_kept_refl: "sweep_kept w w"
  by (simp add: sweep_kept_def)

lemma sweep_kept_trans:
  assumes "sweep_kept w w1" and "sweep_kept w1 w2"
  shows "sweep_kept w w2"
  unfolding sweep_kept_def
proof (intro conjI allI impI)
  show "heartbeat_timeout w2 = heartbeat_timeout w"
    using assms by (simp add: sweep_kept_def)
  show "map_option last_heartbeat (conn_objects w2 r) = map_option last_heartbeat (conn_objects w r)"
    for r
    using assms by (simp add: sweep_kept_def)
  show "map_option websocket (conn_objects w2 r) = map_option websocket (conn_objects w r)" for r
    using assms by (simp add: sweep_kept_def)
  show "map_option status (conn_objects w2 r) = map_option status (conn_objects w r)" for r
    using assms by (simp add: sweep_kept_def)
  show "set (registry_calls w) \<subseteq> set (registry_calls w2)"
    using assms unfolding sweep_kept_def by blast
  show "set (events w) \<subseteq> set (events w2)"
    using assms unfolding sweep_kept_def by blast
  show "sockets w2 s \<noteq> None" if "sockets w s \<noteq> None" for s
  proof -
    from assms(1) that have "sockets w1 s \<noteq> None" by (simp add: sweep_kept_def)
    with assms(2) show ?thesis by (simp add: sweep_kept_def)
  qed
  show "\<exists>sock'. sockets w2 s = Some sock' \<and> ws_closed sock'"
    if "sockets w s = Some sock \<and> ws_closed sock" for s sock
  proof -
    from assms(1) that obtain sock1 where "sockets w1 s = Some sock1 \<and> ws_closed sock1"
      unfolding sweep_kept_def by blast
    with assms(2) show ?thesis unfolding sweep_kept_def by blast
  qed
  show "map_of (connections w2) d = None \<or> map_of (connections w2) d = map_of (connections w) d"
    for d
  proof -
    from assms(2) have a: "map_of (connections w2) d = None
        \<or> map_of (connections w2) d = map_of (connections w1) d"
      by (simp add: sweep_kept_def)
    from assms(1) have b: "map_of (connections w1) d = None
        \<or> map_of (connections w1) d = map_of (connections w) d"
      by (simp add: sweep_kept_def)
    from a b show ?thesis by auto
  qed
qed

lemma sweep_kept_log: "sweep_kept w (log_append w l)"
  by (simp add: sweep_kept_def log_append_def)

lemma sweep_kept_new_message: "sweep_kept w (fst (new_message now w t a p dv c))"
  by (simp add: sweep_kept_def new_message_def)

lemma sweep_kept_upd_conn:
  assumes "\<And>c. last_heartbeat (f c) = last_heartbeat c"
    and "\<And>c. websocket (f c) = websocket c"
    and "\<And>c. status (f c) = status c"
  shows "sweep_kept w (upd_conn w r f)"
  using assms by (simp add: sweep_kept_def upd_conn_def split: option.splits)

lemma sweep_kept_close_socket: "sweep_kept w (close_socket w s)"
  by (simp add: sweep_kept_def close_socket_def split: option.splits)

lemma sweep_kept_send_text: "send_text w s text = Some w1 \<Longrightarrow> sweep_kept w w1"
  by (auto simp: sweep_kept_def send_text_def split: option.splits if_splits)

lemma sweep_kept_send: "sweep_kept w (fst (send J now w d m))"
proof (cases "get_conn w d")
  case None
  then show ?thesis by (simp add: send_def sweep_kept_log)
next
  case (Some rc)
  obtain r conn where rc: "rc = (r, conn)" by (cases rc)
  show ?thesis
  proof (cases "websocket conn")
    case None
    with Some rc show ?thesis by (simp add: send_def sweep_kept_log)
  next
    case ws: (Some s)
    show ?thesis
    proof (cases "send_text w s (to_json J (m\<lparr>device_id := JStr d\<rparr>))")
      case None
      have "sweep_kept (log_append w (LogSendFailed d))
              (upd_conn (log_append w (LogSendFailed d)) r (\<lambda>c. c\<lparr>errors := errors c + 1\<rparr>))"
        by (rule sweep_kept_upd_conn) simp_all
      with None Some rc ws sweep_kept_trans [OF sweep_kept_log] show ?thesis
        by (simp add: send_def)
    next
      case sent: (Some w1)
      have "sweep_kept w1
              (upd_conn w1 r (\<lambda>c. c\<lparr>messages_sent := messages_sent c + 1, last_message := now\<rparr>))"
        by (rule sweep_kept_upd_conn) simp_all
      with sent Some rc ws sweep_kept_trans [OF sweep_kept_send_text [OF sent]] show ?thesis
        by (simp add: send_def)
    qed
  qed
qed

lemma sweep_kept_probe: "sweep_kept w (heartbeat_probe J now w d)"
  unfolding heartbeat_probe_def split_def Let_def
  by (rule sweep_kept_trans [OF sweep_kept_new_message sweep_kept_send])

lemma connections_send: "connections (fst (send J now w d m)) = connections w"
  by (simp add: send_def log_append_def upd_conn_def send_text_def
      split: option.splits prod.splits if_splits)

lemma connections_probe: "connections (heartbeat_probe J now w d) = connections w"
  by (simp add: heartbeat_probe_def split_def Let_def connections_send new_message_def)

lemma sweep_kept_disconnect: "sweep_kept w (fst (disconnect w d))"
proof (cases "map_of (connections w) d")
  case None
  then show ?thesis by (simp add: disconnect_def sweep_kept_refl)
next
  case (Some r)
  let ?w1 = "w\<lparr>connections := AList.delete d (connections w)\<rparr>"
  let ?w2 = "case conn_objects ?w1 r of
               None \<Rightarrow> ?w1
             | Some conn \<Rightarrow> (case websocket conn of None \<Rightarrow> ?w1 | Some s \<Rightarrow> close_socket ?w1 s)"
  have a: "sweep_kept w ?w1"
    by (simp add: sweep_kept_def AList.delete_conv')
  have b: "sweep_kept ?w1 ?w2"
    by (simp add: sweep_kept_refl sweep_kept_close_socket split: option.splits)
  have c: "sweep_kept ?w2 (log_append (emit_event (update_status ?w2 d ''offline'') (Disconnected d))
                             (LogDisconnected d))"
    by (auto simp: sweep_kept_def log_append_def emit_event_def update_status_def)
  from Some sweep_kept_trans [OF a sweep_kept_trans [OF b c]] show ?thesis
    by (simp add: disconnect_def Let_def)
qed

lemma disconnect_effects:
  assumes "map_of (connections w) d = Some r" and "conn_objects w r = Some conn"
  shows "map_of (connections (fst (disconnect w d))) d = None"
    and "UpdateStatus d ''offline'' \<in> set (registry_calls (fst (disconnect w d)))"
    and "Disconnected d \<in> set (events (fst (disconnect w d)))"
    and "websocket conn = Some s \<Longrightarrow> sockets w s \<noteq> None \<Longrightarrow>
           \<exists>sock'. sockets (fst (disconnect w d)) s = Some sock' \<and> ws_closed sock'"
  using assms
  by (auto simp: disconnect_def Let_def log_append_def emit_event_def update_status_def
      close_socket_def AList.delete_conv' split: option.splits)

lemma connections_disconnect_other:
  "d' \<noteq> d \<Longrightarrow> map_of (connections (fst (disconnect w d'))) d = map_of (connections w) d"
  by (simp add: disconnect_def Let_def log_append_def emit_event_def update_status_def
      close_socket_def AList.delete_conv' split: option.splits)

lemma sweep_kept_check: "sweep_kept w (heartbeat_check J now w items)"
proof (induction items arbitrary: w)
  case Nil
  then show ?case by (simp add: sweep_kept_refl)
next
  case (Cons item items)
  obtain d r where item: "item = (d, r)" by (cases item)
  show ?case
  proof (cases "conn_objects w r")
    case None
    with item Cons.IH [of w] show ?thesis by simp
  next
    case (Some conn)
    show ?thesis
    proof (cases "is_alive conn now (heartbeat_timeout w)")
      case True
      with item Some
        sweep_kept_trans [OF sweep_kept_probe Cons.IH [of "heartbeat_probe J now w d"]]
      show ?thesis by simp
    next
      case False
      let ?w = "fst (disconnect (log_append w (LogHeartbeatTimeout d)) d)"
      have "sweep_kept w ?w"
        by (rule sweep_kept_trans [OF sweep_kept_log sweep_kept_disconnect])
      with item Some False sweep_kept_trans [OF _ Cons.IH [of ?w]] show ?thesis by simp
    qed
  qed
qed

lemma sweep_kept_alive:
  assumes "sweep_kept w w'" and "conn_objects w r = Some conn"
  shows "\<exists>conn'. conn_objects w' r = Some conn' \<and> last_heartbeat conn' = last_heartbeat conn
           \<and> websocket conn' = websocket conn \<and> status conn' = status conn
           \<and> is_alive conn' now (heartbeat_timeout w') = is_alive conn now (heartbeat_timeout w)"
proof -
  from assms have a: "map_option last_heartbeat (conn_objects w' r) = Some (last_heartbeat conn)"
    and b: "map_option websocket (conn_objects w' r) = Some (websocket conn)"
    and c: "map_option status (conn_objects w' r) = Some (status conn)"
    and t: "heartbeat_timeout w' = heartbeat_timeout w"
    by (simp_all add: sweep_kept_def)
  from a obtain conn' where "conn_objects w' r = Some conn'" by auto
  with a b c t show ?thesis by (simp add: is_alive_def)
qed

lemma check_evicts:
  assumes "(d, r) \<in> set items" and "distinct (map fst items)"
    and "map_of (connections w) d = Some r" and "conn_objects w r = Some conn"
    and "\<not> is_alive conn now (heartbeat_timeout w)"
  shows "map_of (connections (heartbeat_check J now w items)) d = None
       \<and> UpdateStatus d ''offline'' \<in> set (registry_calls (heartbeat_check J now w items))
       \<and> Disconnected d \<in> set (events (heartbeat_check J now w items))
       \<and> (\<forall>s. websocket conn = Some s \<and> sockets w s \<noteq> None \<longrightarrow>
            (\<exists>sock'. sockets (heartbeat_check J now w items) s = Some sock' \<and> ws_closed sock'))"
  using assms
proof (induction items arbitrary: w conn)
  case Nil
  then show ?case by simp
next
  case (Cons item items)
  obtain d' r' where item: "item = (d', r')" by (cases item)
  show ?case
  proof (cases "d' = d")
    case True
    with item Cons.prems(1,2) have r': "r' = r"
      by (auto simp: rev_image_eqI)
    let ?w = "fst (disconnect (log_append w (LogHeartbeatTimeout d)) d)"
    let ?l = "log_append w (LogHeartbeatTimeout d)"
    have m: "map_of (connections ?l) d = Some r" and o: "conn_objects ?l r = Some conn"
      using Cons.prems(3,4) by (simp_all add: log_append_def)
    have k: "sweep_kept ?w (heartbeat_check J now ?w items)"
      by (rule sweep_kept_check)
    have e1: "map_of (connections (heartbeat_check J now ?w items)) d = None"
      using k disconnect_effects(1) [OF m o] unfolding sweep_kept_def by metis
    have e2: "UpdateStatus d ''offline'' \<in> set (registry_calls (heartbeat_check J now ?w items))"
      using k disconnect_effects(2) [OF m o] unfolding sweep_kept_def by blast
    have e3: "Disconnected d \<in> set (events (heartbeat_check J now ?w items))"
      using k disconnect_effects(3) [OF m o] unfolding sweep_kept_def by blast
    have e4: "\<exists>sock'. sockets (heartbeat_check J now ?w items) s = Some sock' \<and> ws_closed sock'"
      if "websocket conn = Some s" and "sockets w s \<noteq> None" for s
    proof -
      from that(2) have "sockets ?l s \<noteq> None" by (simp add: log_append_def)
      from disconnect_effects(4) [OF m o that(1) this]
      obtain sock1 where "sockets ?w s = Some sock1 \<and> ws_closed sock1" by blast
      with k show ?thesis unfolding sweep_kept_def by blast
    qed
    from True item r' Cons.prems(4,5) e1 e2 e3 e4 show ?thesis by simp
  next
    case False
    with item Cons.prems(1,2) have mem: "(d, r) \<in> set items" and dist: "distinct (map fst items)"
      by auto
    define w1 where "w1 = (case conn_objects w r' of
        None \<Rightarrow> w
      | Some c \<Rightarrow>
          if \<not> is_alive c now (heartbeat_timeout w)
          then fst (disconnect (log_append w (LogHeartbeatTimeout d')) d')
          else heartbeat_probe J now w d')"
    have step: "heartbeat_check J now w (item # items) = heartbeat_check J now w1 items"
      by (simp add: item w1_def split: option.splits)
    have k: "sweep_kept w w1"
      unfolding w1_def
      by (auto simp: sweep_kept_refl sweep_kept_probe
          intro: sweep_kept_trans [OF sweep_kept_log sweep_kept_disconnect]
          split: option.splits)
    have m: "map_of (connections w1) d = Some r"
      using False Cons.prems(3) unfolding w1_def
      by (simp add: connections_probe connections_disconnect_other log_append_def
          split: option.splits)
    from sweep_kept_alive [OF k Cons.prems(4), of now] Cons.prems(5)
    obtain conn1 where o: "conn_objects w1 r = Some conn1"
      and ws: "websocket conn1 = websocket conn"
      and na: "\<not> is_alive conn1 now (heartbeat_timeout w1)"
      by auto
    note ih = Cons.IH [OF mem dist m o na]
    have "\<exists>sock'. sockets (heartbeat_check J now w1 items) s = Some sock' \<and> ws_closed sock'"
      if "websocket conn = Some s" and "sockets w s \<noteq> None" for s
    proof -
      from k that(2) have "sockets w1 s \<noteq> None" unfolding sweep_kept_def by blast
      with ih that(1) ws show ?thesis by simp
    qed
    with ih step show ?thesis by simp
  qed
qed

text \<open>
  C6: when the liveness monitor sweeps, a session of the map whose last heartbeat is at
  least \<open>heartbeat_timeout\<close> seconds old is disconnected: it is no longer in the map,
  its socket is closed, the device registry is told that the device is offline, and the
  disconnected event is emitted.
\<close>

theorem heartbeat_sweep_evicts:
  assumes "distinct (map fst (connections w))"
    and "map_of (connections w) d = Some r" and "conn_objects w r = Some conn"
    and "heartbeat_timeout w \<le> now - last_heartbeat conn"
  shows "map_of (connections (heartbeat_sweep J now w)) d = None
       \<and> UpdateStatus d ''offline'' \<in> set (registry_calls (heartbeat_sweep J now w))
       \<and> Disconnected d \<in> set (events (heartbeat_sweep J now w))
       \<and> (\<forall>s. websocket conn = Some s \<and> sockets w s \<noteq> None \<longrightarrow>
            (\<exists>sock'. sockets (heartbeat_sweep J now w) s = Some sock' \<and> ws_closed sock'))"
proof -
  from assms(2) have "(d, r) \<in> set (connections w)" by (rule map_of_SomeD)
  moreover from assms(4) have "\<not> is_alive conn now (heartbeat_timeout w)"
    by (simp add: is_alive_def)
  ultimately show ?thesis
    unfolding heartbeat_sweep_def using assms(1,2,3) by (intro check_evicts)
qed

lemma comm1_facts:
  "distinct (map fst (connections comm1))"
  "map_of (connections comm1) ''d1'' = Some 0"
  "conn_objects comm1 0 = Some conn1"
  "heartbeat_timeout comm1 = 60"
  "sockets comm1 0 = Some example_socket"
  by (simp_all add: comm1_def comm0_def connect_def DeviceCommunication_init_def
      update_status_def emit_event_def log_append_def conn1_def Let_def)

theorem heartbeat_sweep_evicts_witness:
  "distinct (map fst (connections comm1))
   \<and> map_of (connections comm1) ''d1'' = Some 0 \<and> conn_objects comm1 0 = Some conn1
   \<and> heartbeat_timeout comm1 \<le> 61 - last_heartbeat conn1
   \<and> websocket conn1 = Some 0 \<and> sockets comm1 0 \<noteq> None
   \<and> map_of (connections (heartbeat_sweep probe_json 61 comm1)) ''d1'' = None
   \<and> UpdateStatus ''d1'' ''offline'' \<in> set (registry_calls (heartbeat_sweep probe_json 61 comm1))
   \<and> Disconnected ''d1'' \<in> set (events (heartbeat_sweep probe_json 61 comm1))
   \<and> (\<exists>sock'. sockets (heartbeat_sweep probe_json 61 comm1) 0 = Some sock' \<and> ws_closed sock')"
proof -
  have h: "heartbeat_timeout comm1 \<le> 61 - last_heartbeat conn1"
    by (simp add: comm1_facts conn1_def)
  have s: "websocket conn1 = Some 0" "sockets comm1 0 \<noteq> None"
    by (simp_all add: comm1_facts conn1_def)
  from heartbeat_sweep_evicts [OF comm1_facts(1,2,3) h, of probe_json] s
  show ?thesis
    using comm1_facts(1,2,3) h by simp
qed

lemma check_keeps:
  assumes "map_of (connections w) d = Some r" and "conn_objects w r = Some conn"
    and "is_alive conn now (heartbeat_timeout w)"
    and "\<forall>r'. (d, r') \<in> set items \<longrightarrow> r' = r"
  shows "map_of (connections (heartbeat_check J now w items)) d = Some r"
  using assms
proof (induction items arbitrary: w conn)
  case Nil
  then show ?case by simp
next
  case (Cons item items)
  obtain d' r' where item: "item = (d', r')" by (cases item)
  define w1 where "w1 = (case conn_objects w r' of
      None \<Rightarrow> w
    | Some c \<Rightarrow>
        if \<not> is_alive c now (heartbeat_timeout w)
        then fst (disconnect (log_append w (LogHeartbeatTimeout d')) d')
        else heartbeat_probe J now w d')"
  have step: "heartbeat_check J now w (item # items) = heartbeat_check J now w1 items"
    by (simp add: item w1_def split: option.splits)
  have k: "sweep_kept w w1"
    unfolding w1_def
    by (auto simp: sweep_kept_refl sweep_kept_probe
        intro: sweep_kept_trans [OF sweep_kept_log sweep_kept_disconnect]
        split: option.splits)
  have m: "map_of (connections w1) d = Some r"
  proof (cases "d' = d")
    case True
    with item Cons.prems(4) have "r' = r" by simp
    with True Cons.prems(1,2,3) show ?thesis
      unfolding w1_def by (simp add: connections_probe)
  next
    case False
    with Cons.prems(1) show ?thesis
      unfolding w1_def
      by (simp add: connections_probe connections_disconnect_other log_append_def
          split: option.splits)
  qed
  from sweep_kept_alive [OF k Cons.prems(2), of now] Cons.prems(3)
  obtain conn1 where o: "conn_objects w1 r = Some conn1"
    and a: "is_alive conn1 now (heartbeat_timeout w1)"
    by auto
  from Cons.prems(4) have "\<forall>r'. (d, r') \<in> set items \<longrightarrow> r' = r" by simp
  from Cons.IH [OF m o a this] step show ?case by simp
qed

lemma heartbeat_refreshes:
  assumes "map_of (connections w) d = Some r" and "conn_objects w r = Some conn"
    and "loads J data = Some (JObj raw)" and "map_of raw ''type'' = Some (JStr ''heartbeat'')"
  shows "get_conn (fst (handle_message J t w d data)) d = Some (r, conn\<lparr>last_heartbeat := t\<rparr>)"
  using assms
  by (simp add: handle_message_def handle_message_try_def dict_get_def upd_conn_def
      new_message_def get_conn_def)

text \<open>
  C4 as stated fails: there is no degraded state. After a heartbeat interval without a
  heartbeat the session of the example is as connected as before; the first liveness
  check that fails, at 60 seconds, removes it at once.
\<close>

theorem sweep_no_degraded_counterexample:
  "map_option (\<lambda>rc. status (snd rc)) (get_conn comm1 ''d1'') = Some ''connected''
   \<and> is_connected 30 comm1 ''d1''
   \<and> map_option (\<lambda>rc. status (snd rc)) (get_conn (heartbeat_sweep probe_json 30 comm1) ''d1'')
       = Some ''connected''
   \<and> is_connected 59 (heartbeat_sweep probe_json 30 comm1) ''d1''
   \<and> get_conn (heartbeat_sweep probe_json 59 (heartbeat_sweep probe_json 30 comm1)) ''d1'' \<noteq> None
   \<and> get_conn (heartbeat_sweep probe_json 60 comm1) ''d1'' = None"
  by (simp add: heartbeat_sweep_def heartbeat_probe_def is_connected_def is_alive_def
      comm1_def comm0_def connect_def DeviceCommunication_init_def get_conn_def
      update_status_def emit_event_def log_append_def Let_def new_message_def upd_conn_def
      send_def send_text_def example_socket_def example_uuids_def disconnect_def
      close_socket_def)

text \<open>
  C4, amended: a sweep of the liveness monitor keeps a session, with its status and its
  heartbeat time as they were, while the last heartbeat is less than
  \<open>heartbeat_timeout\<close> seconds old, and removes it at the first sweep where it is not;
  no state lies between the two. A heartbeat message sets the heartbeat time to the time
  it arrives, so the session is alive again for the next \<open>heartbeat_timeout\<close> seconds.
\<close>

theorem heartbeat_sweep_keeps_or_closes:
  assumes "distinct (map fst (connections w))"
    and "map_of (connections w) d = Some r" and "conn_objects w r = Some conn"
  shows "(is_alive conn now (heartbeat_timeout w) \<longrightarrow>
            map_of (connections (heartbeat_sweep J now w)) d = Some r
            \<and> (\<exists>conn'. conn_objects (heartbeat_sweep J now w) r = Some conn'
                  \<and> status conn' = status conn \<and> last_heartbeat conn' = last_heartbeat conn))
       \<and> (\<not> is_alive conn now (heartbeat_timeout w) \<longrightarrow>
            map_of (connections (heartbeat_sweep J now w)) d = None)
       \<and> (\<forall>data raw t.
            loads J data = Some (JObj raw) \<and> map_of raw ''type'' = Some (JStr ''heartbeat'') \<longrightarrow>
            get_conn (fst (handle_message J t w d data)) d = Some (r, conn\<lparr>last_heartbeat := t\<rparr>)
            \<and> (\<forall>t'. is_alive (conn\<lparr>last_heartbeat := t\<rparr>) t' (heartbeat_timeout w)
                     \<longleftrightarrow> t' - t < heartbeat_timeout w))"
proof (intro conjI impI allI)
  have u: "\<forall>r'. (d, r') \<in> set (connections w) \<longrightarrow> r' = r"
    using assms(1) map_of_SomeD [OF assms(2)] by (auto dest: eq_key_imp_eq_value)
  show "map_of (connections (heartbeat_sweep J now w)) d = Some r"
    if "is_alive conn now (heartbeat_timeout w)"
    unfolding heartbeat_sweep_def by (rule check_keeps [OF assms(2,3) that u])
  from sweep_kept_alive [OF sweep_kept_check assms(3), of J now "connections w" now]
  show "\<exists>conn'. conn_objects (heartbeat_sweep J now w) r = Some conn'
          \<and> status conn' = status conn \<and> last_heartbeat conn' = last_heartbeat conn"
    unfolding heartbeat_sweep_def by auto
  from assms(2) have "(d, r) \<in> set (connections w)" by (rule map_of_SomeD)
  then show "map_of (connections (heartbeat_sweep J now w)) d = None"
    if "\<not> is_alive conn now (heartbeat_timeout w)"
    unfolding heartbeat_sweep_def using check_evicts [OF _ assms(1,2,3) that] by simp
  show "get_conn (fst (handle_message J t w d data)) d = Some (r, conn\<lparr>last_heartbeat := t\<rparr>)"
    if "loads J data = Some (JObj raw) \<and> map_of raw ''type'' = Some (JStr ''heartbeat'')"
    for data raw t
    using that heartbeat_refreshes [OF assms(2,3)] by simp
  show "is_alive (conn\<lparr>last_heartbeat := t\<rparr>) t' (heartbeat_timeout w)
          \<longleftrightarrow> t' - t < heartbeat_timeout w" for t t'
    by (simp add: is_alive_def)
qed

theorem heartbeat_sweep_keeps_or_closes_witness:
  "distinct (map fst (connections comm1))
   \<and> map_of (connections comm1) ''d1'' = Some 0 \<and> conn_objects comm1 0 = Some conn1
   \<and> is_alive conn1 59 (heartbeat_timeout comm1)
   \<and> map_of (connections (heartbeat_sweep probe_json 59 comm1)) ''d1'' = Some 0
   \<and> \<not> is_alive conn1 60 (heartbeat_timeout comm1)
   \<and> map_of (connections (heartbeat_sweep probe_json 60 comm1)) ''d1'' = None
   \<and> loads probe_json heartbeat_text
       = Some (JObj [(''type'', JStr ''heartbeat''), (''device_id'', JStr ''d1'')])
   \<and> get_conn (fst (handle_message probe_json 45 comm1 ''d1'' heartbeat_text)) ''d1''
       = Some (0, conn1\<lparr>last_heartbeat := 45\<rparr>)
   \<and> is_alive (conn1\<lparr>last_heartbeat := 45\<rparr>) 60 (heartbeat_timeout comm1)"
proof -
  note t = heartbeat_sweep_keeps_or_closes [OF comm1_facts(1,2,3), where J = probe_json]
  have a: "is_alive conn1 59 (heartbeat_timeout comm1)"
    "\<not> is_alive conn1 60 (heartbeat_timeout comm1)"
    by (simp_all add: is_alive_def comm1_facts conn1_def)
  have l: "loads probe_json heartbeat_text
       = Some (JObj [(''type'', JStr ''heartbeat''), (''device_id'', JStr ''d1'')])"
    by (simp add: probe_json_def table_json_def heartbeat_text_def probe30_text_def
        probe59_text_def)
  have m: "map_of [(''type'', JStr ''heartbeat''), (''device_id'', JStr ''d1'')] ''type''
       = Some (JStr ''heartbeat'')"
    by simp
  from t [of 59] a(1) have b: "map_of (connections (heartbeat_sweep probe_json 59 comm1)) ''d1'' = Some 0"
    by blast
  from t [of 60] a(2) have c: "map_of (connections (heartbeat_sweep probe_json 60 comm1)) ''d1'' = None"
    by blast
  from t [of 0] l m
  have d: "get_conn (fst (handle_message probe_json 45 comm1 ''d1'' heartbeat_text)) ''d1''
       = Some (0, conn1\<lparr>last_heartbeat := 45\<rparr>)"
    by blast
  from t [of 0] l m
  have e: "is_alive (conn1\<lparr>last_heartbeat := 45\<rparr>) 60 (heartbeat_timeout comm1)
       \<longleftrightarrow> (60::real) - 45 < heartbeat_timeout comm1"
    by blast
  then have f: "is_alive (conn1\<lparr>last_heartbeat := 45\<rparr>) 60 (heartbeat_timeout comm1)"
    by (simp add: comm1_facts)
  show ?thesis
    using comm1_facts(1,2,3) a b c l d f by simp
qed

subsection \<open>Loading a tool server\<close>

lemma map_of_upd_server:
  "map_of (servers l) sid = Some server \<Longrightarrow> map_of (servers (upd_server l sid f)) sid = Some (f server)"
  by (simp add: upd_server_def AList.update_conv')

text \<open>
  C5 as stated fails in its second half: the server whose command exited at once is
  still in \<open>servers\<close> when \<open>load\<close> has returned its failure.
\<close>

theorem load_keeps_failed_counterexample:
  "load rpc_json example_os 0 ''ab12cd34'' MCPLoader_init ''broken''
     (CmdStr ''python missing.py'') None None [] True
     = (loader_failed,
        LoadFailed (Some (StderrOutput ''python: cannot open file missing.py'')) ''ab12cd34'')
   \<and> map_option server_status (map_of (servers loader_failed) ''ab12cd34'') = Some SERVER_ERROR
   \<and> map fst (servers loader_failed) = [''ab12cd34'']"
  by (simp add: loader_failed_def load_def start_def upd_server_def MCPLoader_init_def
      example_os_def failed_process_def py_split_def is_space_def Let_def)

lemma start_failure:
  assumes "map_of (servers l) sid = Some server"
    and "popen sys (command server @ args server)
           (fold (\<lambda>kv. AList.update (fst kv) (snd kv)) (env server) (environ sys))
           (if cwd server = [] then None else Some (cwd server)) = launch"
    and "case launch of Raise e \<Rightarrow> True | Return proc \<Rightarrow> returncode proc \<noteq> None"
  shows "\<exists>l' s'. start J sys l sid = (l', False) \<and> map_of (servers l') sid = Some s'
           \<and> server_status s' = SERVER_ERROR
           \<and> server_error s' = Some (case launch of
                                       Raise e \<Rightarrow> ExceptionText e
                                     | Return proc \<Rightarrow> StderrOutput (stderr_text proc))"
proof (cases launch)
  case (Raise e)
  with assms(2) have p: "popen sys (command server @ args server)
           (fold (\<lambda>kv. AList.update (fst kv) (snd kv)) (env server) (environ sys))
           (if cwd server = [] then None else Some (cwd server)) = Raise e"
    by simp
  show ?thesis
    unfolding start_def Let_def
    by (simp add: assms(1) p Raise upd_server_def AList.update_conv' mcp_log_append_def)
next
  case (Return proc)
  with assms(3) obtain c where c: "returncode proc = Some c" by auto
  from Return assms(2) have p: "popen sys (command server @ args server)
           (fold (\<lambda>kv. AList.update (fst kv) (snd kv)) (env server) (environ sys))
           (if cwd server = [] then None else Some (cwd server)) = Return proc"
    by simp
  show ?thesis
    unfolding start_def Let_def
    by (simp add: assms(1) p c Return upd_server_def AList.update_conv' mcp_log_append_def)
qed

text \<open>
  C5, amended: when the command cannot be started, or has exited by the end of the
  start-up sleep (with any status), \<open>load\<close> returns the failure value with the error
  text and the id; the server stays in \<open>servers\<close> under that id, with status error and
  the error text, and \<open>call_tool\<close> on it is refused because it is not running.
\<close>

theorem load_launch_failure:
  assumes "popen sys
             ((case cmd of CmdStr s \<Rightarrow> py_split s | CmdList xs \<Rightarrow> xs)
               @ (case arguments of None \<Rightarrow> [] | Some xs \<Rightarrow> xs))
             (fold (\<lambda>kv. AList.update (fst kv) (snd kv))
                (case environment of None \<Rightarrow> [] | Some kvs \<Rightarrow> kvs) (environ sys))
             (if dir = [] then None else Some dir) = launch"
    and "err = (case launch of
                  Raise e \<Rightarrow> ExceptionText e
                | Return proc \<Rightarrow> StderrOutput (stderr_text proc))"
    and "case launch of Raise e \<Rightarrow> True | Return proc \<Rightarrow> returncode proc \<noteq> None"
  shows "snd (load J sys now uid l name cmd arguments environment dir True)
           = LoadFailed (Some err) uid
       \<and> (\<exists>server. map_of (servers (fst (load J sys now uid l name cmd arguments environment
                                              dir True))) uid = Some server
             \<and> server_status server = SERVER_ERROR \<and> server_error server = Some err)
       \<and> snd (call_tool J (fst (load J sys now uid l name cmd arguments environment dir True))
                 uid tool tool_arguments) = ServerNotRunning"
proof -
  let ?server = "\<lparr>server_id = uid, server_name = name,
             command = (case cmd of CmdStr s \<Rightarrow> py_split s | CmdList xs \<Rightarrow> xs),
             args = (case arguments of None \<Rightarrow> [] | Some xs \<Rightarrow> xs),
             env = (case environment of None \<Rightarrow> [] | Some kvs \<Rightarrow> kvs),
             cwd = dir, server_status = STOPPED, process = None, server_error = None,
             tools = [], resources = [], prompts = [],
             server_info = JObj [], capabilities = JObj [], created_at = now\<rparr>"
  let ?l1 = "l\<lparr>servers := AList.update uid ?server (servers l)\<rparr>"
  have m: "map_of (servers ?l1) uid = Some ?server"
    by (simp add: AList.update_conv')
  have p: "popen sys (command ?server @ args ?server)
             (fold (\<lambda>kv. AList.update (fst kv) (snd kv)) (env ?server) (environ sys))
             (if cwd ?server = [] then None else Some (cwd ?server)) = launch"
    using assms(1) by (simp cong: if_cong)
  from start_failure [OF m p assms(3), of J] assms(2)
  obtain l2 s2 where st: "start J sys ?l1 uid = (l2, False)"
    and s2: "map_of (servers l2) uid = Some s2" "server_status s2 = SERVER_ERROR"
      "server_error s2 = Some err"
    by auto
  have ld: "load J sys now uid l name cmd arguments environment dir True
              = (l2, LoadFailed (Some err) uid)"
    unfolding load_def Let_def by (simp add: st s2)
  from s2 show ?thesis
    by (simp add: ld call_tool_def)
qed

theorem load_launch_failure_witness:
  "popen example_os ([''python'', ''missing.py''] @ [])
     (fold (\<lambda>kv. AList.update (fst kv) (snd kv)) [] (environ example_os)) None
     = Return failed_process
   \<and> returncode failed_process \<noteq> None
   \<and> snd (load rpc_json example_os 0 ''ab12cd34'' MCPLoader_init ''broken''
            (CmdStr ''python missing.py'') None None [] True)
       = LoadFailed (Some (StderrOutput (stderr_text failed_process))) ''ab12cd34''
   \<and> (\<exists>server. map_of (servers loader_failed) ''ab12cd34'' = Some server
         \<and> server_status server = SERVER_ERROR)
   \<and> snd (call_tool rpc_json loader_failed ''ab12cd34'' ''ping'' JNull) = ServerNotRunning"
proof -
  have s: "py_split ''python missing.py'' = [''python'', ''missing.py'']"
    by (simp add: py_split_def is_space_def)
  have p: "popen example_os ([''python'', ''missing.py''] @ [])
     (fold (\<lambda>kv. AList.update (fst kv) (snd kv)) [] (environ example_os)) None
     = Return failed_process"
    by (simp add: example_os_def)
  have r: "returncode failed_process \<noteq> None"
    by (simp add: failed_process_def)
  have "snd (load rpc_json example_os 0 ''ab12cd34'' MCPLoader_init ''broken''
            (CmdStr ''python missing.py'') None None [] True)
       = LoadFailed (Some (StderrOutput (stderr_text failed_process))) ''ab12cd34''
     \<and> (\<exists>server. map_of (servers loader_failed) ''ab12cd34'' = Some server
           \<and> server_status server = SERVER_ERROR
           \<and> server_error server = Some (StderrOutput (stderr_text failed_process)))
     \<and> snd (call_tool rpc_json loader_failed ''ab12cd34'' ''ping'' JNull) = ServerNotRunning"
    unfolding loader_failed_def
    by (rule load_launch_failure [where launch = "Return failed_process"])
      (simp_all add: s example_os_def failed_process_def)
  with p r show ?thesis by auto
qed

subsection \<open>Request ids\<close>










subsection \<open>Commands that get no answer\<close>

lemma registered_under_kept:
  assumes "tables_kept w w'"
  shows "registered_under w' f mid = registered_under w f mid"
proof -
  have "(case conn_objects w' r of
           None \<Rightarrow> True
         | Some conn \<Rightarrow> (\<forall>kf \<in> set (pending_requests conn). snd kf = f \<longrightarrow> fst kf = mid))
      = (case conn_objects w r of
           None \<Rightarrow> True
         | Some conn \<Rightarrow> (\<forall>kf \<in> set (pending_requests conn). snd kf = f \<longrightarrow> fst kf = mid))"
    for r
  proof -
    from assms have "map_option pending_requests (conn_objects w' r)
             = map_option pending_requests (conn_objects w r)"
      by (simp add: tables_kept_def)
    then show ?thesis
      by (cases "conn_objects w' r"; cases "conn_objects w r") simp_all
  qed
  with assms show ?thesis
    by (simp add: registered_under_def tables_kept_def)
qed

lemma registered_under_entry:
  assumes "registered_under w f mid" and "(d, r) \<in> set (connections w)"
    and "conn_objects w r = Some conn" and "map_of (pending_requests conn) cid = Some f"
  shows "cid = mid"
proof -
  from assms(4) have "(cid, f) \<in> set (pending_requests conn)" by (rule map_of_SomeD)
  with assms(1,2,3) show ?thesis
    by (force simp: registered_under_def)
qed

lemma resolve_response_other:
  assumes "(d, r) \<in> set (connections w)" and "registered_under w f mid"
    and "correlation_id m \<noteq> JStr mid"
  shows "futures (fst (resolve_response w r m)) f = futures w f"
  using assms registered_under_entry [OF assms(2,1)]
  by (auto simp: resolve_response_def split: json.splits option.splits future.splits)

lemma dispatch_other:
  assumes "(d, r) \<in> set (connections w)" and "registered_under w f mid"
    and "type m = RESPONSE \<longrightarrow> correlation_id m \<noteq> JStr mid"
  shows "futures (fst (dispatch now w d r m)) f = futures w f"
proof -
  let ?w = "upd_conn w r
                (\<lambda>c. c\<lparr>messages_received := messages_received c + 1, last_message := now\<rparr>)"
  have a: "tables_kept w ?w"
    by (rule tables_kept_upd_conn) simp
  from a assms(1) have c: "(d, r) \<in> set (connections ?w)"
    by (simp add: tables_kept_def)
  from a assms(2) have g: "registered_under ?w f mid"
    by (simp add: registered_under_kept)
  show ?thesis
  proof (cases "type m")
    case RESPONSE
    with assms(3) have "correlation_id m \<noteq> JStr mid" by simp
    from resolve_response_other [OF c g this] RESPONSE show ?thesis
      by (simp add: dispatch_def futures_simple)
  next
    case EVENT
    show ?thesis
    proof (cases "handle_event ?w d m")
      case (Return w1)
      with EVENT handle_event_kept [OF Return] show ?thesis
        by (simp add: dispatch_def futures_simple)
    next
      case (Raise e)
      with EVENT show ?thesis by (simp add: dispatch_def futures_simple)
    qed
  qed (simp_all add: dispatch_def Let_def split_def futures_simple call_handler_futures)
qed

lemma new_message_type: "type (snd (new_message now w t a p dv c)) = t"
  by (simp add: new_message_def)

lemma handle_message_try_other:
  assumes "(d, r) \<in> set (connections w)" and "registered_under w f mid"
    and "case from_json J now data of
           Raise e \<Rightarrow> True
         | Return m \<Rightarrow> type m = RESPONSE \<longrightarrow> correlation_id m \<noteq> JStr mid"
  shows "futures (fst (handle_message_try J now w d r data)) f = futures w f"
proof (cases "loads J data")
  case None
  then show ?thesis by (simp add: handle_message_try_def)
next
  case (Some v)
  show ?thesis
  proof (cases v)
    case (JObj raw)
    have k: "tables_kept w (fst (new_message now w t a p dv c))" for t a p dv c
      by (rule tables_kept_simple)
    have aip: "futures (fst (dispatch now (fst (new_message now w t a p dv c)) d r
                               (snd (new_message now w t a p dv c)))) f = futures w f"
      if "t \<noteq> RESPONSE" for t a p dv c
    proof -
      from k [of t a p dv c] assms(1)
      have c1: "(d, r) \<in> set (connections (fst (new_message now w t a p dv c)))"
        by (simp add: tables_kept_def)
      from k [of t a p dv c] assms(2)
      have g1: "registered_under (fst (new_message now w t a p dv c)) f mid"
        by (simp add: registered_under_kept)
      from that have "type (snd (new_message now w t a p dv c)) = RESPONSE
          \<longrightarrow> correlation_id (snd (new_message now w t a p dv c)) \<noteq> JStr mid"
        by (simp add: new_message_type)
      from dispatch_other [OF c1 g1 this] show ?thesis
        by (simp add: futures_simple)
    qed
    have fj: "futures (fst (dispatch now w d r m)) f = futures w f"
      if "from_json J now data = Return m" for m
      using assms(3) that dispatch_other [OF assms(1,2), of m now] by simp
    from Some JObj aip fj show ?thesis
      by (simp add: handle_message_try_def split_def Let_def futures_simple
          split: outcome.splits)
  qed (simp_all add: Some handle_message_try_def)
qed

lemma handle_message_other:
  assumes "registered_under w f mid"
    and "case from_json J now data of
           Raise e \<Rightarrow> True
         | Return m \<Rightarrow> type m = RESPONSE \<longrightarrow> correlation_id m \<noteq> JStr mid"
  shows "futures (fst (handle_message J now w d data)) f = futures w f"
proof (cases "get_conn w d")
  case None
  then show ?thesis by (simp add: handle_message_def)
next
  case (Some rc)
  obtain r conn where rc: "rc = (r, conn)" by (cases rc)
  with Some have "map_of (connections w) d = Some r"
    by (auto simp: get_conn_def split: option.splits)
  then have m: "(d, r) \<in> set (connections w)" by (rule map_of_SomeD)
  obtain w1 res where t: "handle_message_try J now w d r data = (w1, res)"
    by (cases "handle_message_try J now w d r data")
  with handle_message_try_other [OF m assms] have "futures w1 f = futures w f"
    by simp
  with Some rc t show ?thesis
    by (cases res) (simp_all add: handle_message_def futures_simple)
qed

lemma handle_messages_other:
  assumes "registered_under w f mid"
    and "\<forall>msg \<in> set msgs.
           case from_json J (fst msg) (snd (snd msg)) of
             Raise e \<Rightarrow> True
           | Return m \<Rightarrow> type m = RESPONSE \<longrightarrow> correlation_id m \<noteq> JStr mid"
  shows "futures (handle_messages J w msgs) f = futures w f"
  using assms
proof (induction msgs arbitrary: w)
  case Nil
  then show ?case by simp
next
  case (Cons msg msgs)
  obtain now d data where msg: "msg = (now, d, data)" by (cases msg)
  let ?w = "fst (handle_message J now w d data)"
  from Cons.prems(2) msg have h: "case from_json J now data of
           Raise e \<Rightarrow> True
         | Return m \<Rightarrow> type m = RESPONSE \<longrightarrow> correlation_id m \<noteq> JStr mid"
    by simp
  from Cons.prems(1) have u: "registered_under ?w f mid"
    by (simp add: registered_under_kept [OF handle_message_kept])
  from Cons.prems(2) have r: "\<forall>msg \<in> set msgs.
           case from_json J (fst msg) (snd (snd msg)) of
             Raise e \<Rightarrow> True
           | Return m \<Rightarrow> type m = RESPONSE \<longrightarrow> correlation_id m \<noteq> JStr mid"
    by simp
  from Cons.IH [OF u r] msg handle_message_other [OF Cons.prems(1) h, of d] show ?case
    by simp
qed

lemma registered_entry:
  "(d, r) \<in> set (connections w) \<Longrightarrow> conn_objects w r = Some conn \<Longrightarrow>
     kf \<in> set (pending_requests conn) \<Longrightarrow> snd kf \<in> set (registered_futures w)"
  by (force simp: registered_futures_def)

lemma set_update_subset: "set (AList.update k v al) \<subseteq> insert (k, v) (set al)"
  by (induction al) auto

lemma send_command_begin_tables:
  assumes "get_conn w d = Some (r, conn)" and "websocket conn = Some s"
    and "send_command_begin J now w d act params timeout = (w1, Inr c)"
  shows "connections w1 = connections w"
    and "map_option pending_requests (conn_objects w1 r')
           = (if r' = r
              then Some (AList.update (uuid4 w (uuid_drawn w)) (next_future w)
                           (pending_requests conn))
              else map_option pending_requests (conn_objects w r'))"
proof -
  from assms(1) have m: "map_of (connections w) d = Some r" and o: "conn_objects w r = Some conn"
    by (auto simp: get_conn_def split: option.splits)
  show "connections w1 = connections w"
    using assms m o
    by (auto simp: send_command_begin_def Let_def new_message_def upd_conn_def send_def
        get_conn_def send_text_def log_append_def pop_pending_def
        split: option.splits prod.splits if_splits)
  show "map_option pending_requests (conn_objects w1 r')
           = (if r' = r
              then Some (AList.update (uuid4 w (uuid_drawn w)) (next_future w)
                           (pending_requests conn))
              else map_option pending_requests (conn_objects w r'))"
    using assms m o
    by (auto simp: send_command_begin_def Let_def new_message_def upd_conn_def send_def
        get_conn_def send_text_def log_append_def pop_pending_def
        split: option.splits prod.splits if_splits)
qed

lemma send_command_begin_registered:
  assumes "get_conn w d = Some (r, conn)" and "websocket conn = Some s"
    and "send_command_begin J now w d act params timeout = (w1, Inr c)"
    and "next_future w \<notin> set (registered_futures w)"
  shows "registered_under w1 (next_future w) (uuid4 w (uuid_drawn w))"
  unfolding registered_under_def
proof
  fix dr
  assume dr: "dr \<in> set (connections w1)"
  note t = send_command_begin_tables [OF assms(1,2,3)]
  from dr t(1) have dw: "(fst dr, snd dr) \<in> set (connections w)" by simp
  show "case conn_objects w1 (snd dr) of
          None \<Rightarrow> True
        | Some conn \<Rightarrow>
            (\<forall>kf \<in> set (pending_requests conn).
               snd kf = next_future w \<longrightarrow> fst kf = uuid4 w (uuid_drawn w))"
  proof (cases "conn_objects w1 (snd dr)")
    case None
    then show ?thesis by simp
  next
    case (Some conn1)
    have "fst kf = uuid4 w (uuid_drawn w)"
      if kf: "kf \<in> set (pending_requests conn1)" and f: "snd kf = next_future w" for kf
    proof (cases "snd dr = r")
      case True
      with t(2) [of "snd dr"] Some
      have "pending_requests conn1
              = AList.update (uuid4 w (uuid_drawn w)) (next_future w) (pending_requests conn)"
        by simp
      with kf set_update_subset
      have "kf = (uuid4 w (uuid_drawn w), next_future w) \<or> kf \<in> set (pending_requests conn)"
        by fastforce
      then show ?thesis
      proof
        assume "kf = (uuid4 w (uuid_drawn w), next_future w)"
        then show ?thesis by simp
      next
        assume i: "kf \<in> set (pending_requests conn)"
        from assms(1) have "conn_objects w r = Some conn"
          by (auto simp: get_conn_def split: option.splits)
        with dw True have "snd kf \<in> set (registered_futures w)"
          using i by (simp add: registered_entry [of "fst dr" r w conn kf])
        with f have "next_future w \<in> set (registered_futures w)" by simp
        with assms(4) show ?thesis by simp
      qed
    next
      case False
      with t(2) [of "snd dr"] Some
      obtain conn0 where c0: "conn_objects w (snd dr) = Some conn0"
        and p0: "pending_requests conn0 = pending_requests conn1"
        by (cases "conn_objects w (snd dr)") auto
      with dw kf have "snd kf \<in> set (registered_futures w)"
        by (simp add: registered_entry [of "fst dr" "snd dr" w conn0 kf])
      with f have "next_future w \<in> set (registered_futures w)" by simp
      with assms(4) show ?thesis by simp
    qed
    with Some show ?thesis by simp
  qed
qed

lemma send_command_begin_zero:
  "send_command_begin late_json 10 comm1 ''d1'' ''click'' click_params (Some 0)
     = (comm_click, Inr click_call)"
  by (simp add: comm_click_def click_call_def send_command_begin_def comm1_def comm0_def
      connect_def DeviceCommunication_init_def get_conn_def update_status_def emit_event_def
      log_append_def Let_def new_message_def upd_conn_def send_def send_text_def
      example_socket_def py_or_def click_params_def example_uuids_def pop_pending_def
      late_json_def click_json_def table_json_def to_json_def to_dict_def)

lemma comm1_fresh: "next_future comm1 \<notin> set (registered_futures comm1)"
  by (simp add: comm1_def comm0_def connect_def DeviceCommunication_init_def
      update_status_def emit_event_def log_append_def Let_def registered_futures_def)

lemma late_response_handled:
  "futures (handle_messages late_json comm_click [(25, ''d1'', late_response_text)]) 0
     = Some (FResult (JObj []))"
  by (simp add: comm_click_def send_command_begin_def comm1_def comm0_def
      connect_def DeviceCommunication_init_def get_conn_def update_status_def emit_event_def
      log_append_def Let_def new_message_def upd_conn_def send_def send_text_def
      example_socket_def py_or_def click_params_def example_uuids_def pop_pending_def
      late_json_def click_json_def table_json_def to_json_def to_dict_def
      handle_message_def handle_message_try_def dict_get_def from_json_def
      MessageType_members_def dispatch_def resolve_response_def
      click_d1_text_def stray_response_text_def late_response_text_def)

text \<open>
  C3 as stated fails for the timeout 0: the code waits \<open>timeout or self.command_timeout\<close>
  seconds. The call of the example, made at time 10 with timeout 0, has the deadline 40;
  it still waits at time 20, and it returns the response that arrives at time 25.
\<close>

theorem send_command_zero_timeout_counterexample:
  "send_command_begin late_json 10 comm1 ''d1'' ''click'' click_params (Some 0)
     = (comm_click, Inr click_call)
   \<and> call_deadline click_call = 40
   \<and> snd (send_command_resume 20 comm_click click_call) = None
   \<and> snd (send_command_resume 26
            (handle_messages late_json comm_click [(25, ''d1'', late_response_text)])
            click_call) = Some (Response (JObj []))"
  by (simp add: send_command_begin_zero send_command_resume_pending comm_click_pending
      click_call_def late_response_handled send_command_resume_def
      del: handle_messages.simps)

text \<open>
  C3, amended: the time a call waits is \<open>timeout\<close> when one is given and is not zero,
  and \<open>command_timeout\<close> otherwise. A call on a connected session registers a new
  future under its message id. When the request was written and, of the texts that
  arrive, none decodes to a response with the call's message id as correlation id, the
  call waits until that time has elapsed and then returns the time-out error. On every
  return (sending failed, result, time-out, cancellation) the table of the call's
  connection holds no entry for the message id.
\<close>

theorem send_command_timeout:
  assumes "get_conn w d = Some (r, conn)" and "websocket conn = Some s"
  shows "(case send_command_begin J now w d act params timeout of
            (w1, Inl res) \<Rightarrow>
              res = SendFailed \<and> pending_entry w1 r (uuid4 w (uuid_drawn w)) = None
          | (w1, Inr c) \<Rightarrow>
              c = \<lparr>call_conn = r, call_message_id = uuid4 w (uuid_drawn w),
                   call_future = next_future w,
                   call_deadline = now + (case timeout of
                                            None \<Rightarrow> command_timeout w
                                          | Some x \<Rightarrow> if x = 0 then command_timeout w else x)\<rparr>
              \<and> futures w1 (next_future w) = Some FPending
              \<and> pending_entry w1 r (uuid4 w (uuid_drawn w)) = Some (next_future w)
              \<and> (next_future w \<notin> set (registered_futures w) \<longrightarrow>
                   (\<forall>msgs t.
                      (\<forall>msg \<in> set msgs.
                         case from_json J (fst msg) (snd (snd msg)) of
                           Raise e \<Rightarrow> True
                         | Return m \<Rightarrow>
                             type m = RESPONSE
                             \<longrightarrow> correlation_id m \<noteq> JStr (uuid4 w (uuid_drawn w)))
                      \<longrightarrow> snd (send_command_resume t (handle_messages J w1 msgs) c)
                            = (if call_deadline c \<le> t then Some CommandTimeout else None))))
       \<and> (\<forall>w2 t c. futures w2 (call_future c) = Some FPending \<and> call_deadline c \<le> t \<longrightarrow>
             snd (send_command_resume t w2 c) = Some CommandTimeout)
       \<and> (\<forall>w2 t c. snd (send_command_resume t w2 c) \<noteq> None \<longrightarrow>
             pending_entry (fst (send_command_resume t w2 c)) (call_conn c) (call_message_id c)
               = None)"
proof -
  obtain w1 res where e: "send_command_begin J now w d act params timeout = (w1, res)"
    by (cases "send_command_begin J now w d act params timeout")
  note b = send_command_begin_cases [OF assms, where J = J and now = now and act = act
      and params = params and timeout = timeout]
  have tail: "(\<forall>w2 t c. futures w2 (call_future c) = Some FPending \<and> call_deadline c \<le> t \<longrightarrow>
             snd (send_command_resume t w2 c) = Some CommandTimeout)
       \<and> (\<forall>w2 t c. snd (send_command_resume t w2 c) \<noteq> None \<longrightarrow>
             pending_entry (fst (send_command_resume t w2 c)) (call_conn c) (call_message_id c)
               = None)"
    by (simp add: send_command_resume_done send_command_resume_pending)
  show ?thesis
  proof (cases res)
    case (Inl x)
    with e b tail show ?thesis by simp
  next
    case (Inr c)
    from e Inr have e1: "send_command_begin J now w d act params timeout = (w1, Inr c)"
      by simp
    from e1 b have c: "c = \<lparr>call_conn = r, call_message_id = uuid4 w (uuid_drawn w),
                   call_future = next_future w,
                   call_deadline = now + (case timeout of
                                            None \<Rightarrow> command_timeout w
                                          | Some x \<Rightarrow> if x = 0 then command_timeout w else x)\<rparr>"
      and p: "futures w1 (next_future w) = Some FPending"
      and q: "pending_entry w1 r (uuid4 w (uuid_drawn w)) = Some (next_future w)"
      by simp_all
    from c have cf: "call_future c = next_future w" by simp
    have link: "snd (send_command_resume t (handle_messages J w1 msgs) c)
                  = (if call_deadline c \<le> t then Some CommandTimeout else None)"
      if fresh: "next_future w \<notin> set (registered_futures w)"
        and quiet: "\<forall>msg \<in> set msgs.
                      case from_json J (fst msg) (snd (snd msg)) of
                        Raise e \<Rightarrow> True
                      | Return m \<Rightarrow>
                          type m = RESPONSE
                          \<longrightarrow> correlation_id m \<noteq> JStr (uuid4 w (uuid_drawn w))"
      for msgs t
    proof -
      from send_command_begin_registered [OF assms e1 fresh]
      have u: "registered_under w1 (next_future w) (uuid4 w (uuid_drawn w))" .
      from handle_messages_other [OF u quiet] p
      have "futures (handle_messages J w1 msgs) (call_future c) = Some FPending"
        by (simp add: cf)
      then show ?thesis by (rule send_command_resume_pending)
    qed
    have main: "c = \<lparr>call_conn = r, call_message_id = uuid4 w (uuid_drawn w),
                   call_future = next_future w,
                   call_deadline = now + (case timeout of
                                            None \<Rightarrow> command_timeout w
                                          | Some x \<Rightarrow> if x = 0 then command_timeout w else x)\<rparr>
              \<and> futures w1 (next_future w) = Some FPending
              \<and> pending_entry w1 r (uuid4 w (uuid_drawn w)) = Some (next_future w)
              \<and> (next_future w \<notin> set (registered_futures w) \<longrightarrow>
                   (\<forall>msgs t.
                      (\<forall>msg \<in> set msgs.
                         case from_json J (fst msg) (snd (snd msg)) of
                           Raise e \<Rightarrow> True
                         | Return m \<Rightarrow>
                             type m = RESPONSE
                             \<longrightarrow> correlation_id m \<noteq> JStr (uuid4 w (uuid_drawn w)))
                      \<longrightarrow> snd (send_command_resume t (handle_messages J w1 msgs) c)
                            = (if call_deadline c \<le> t then Some CommandTimeout else None)))"
      using c p q link by blast
    show ?thesis
      unfolding e1 prod.case sum.case using main tail by (rule conjI)
  qed
qed

lemma send_command_begin_five:
  "send_command_begin late_json 10 comm1 ''d1'' ''click'' click_params (Some 5)
     = (comm_click, Inr (click_call\<lparr>call_deadline := 15\<rparr>))"
  by (simp add: comm_click_def click_call_def send_command_begin_def comm1_def comm0_def
      connect_def DeviceCommunication_init_def get_conn_def update_status_def emit_event_def
      log_append_def Let_def new_message_def upd_conn_def send_def send_text_def
      example_socket_def py_or_def click_params_def example_uuids_def pop_pending_def
      late_json_def click_json_def table_json_def to_json_def to_dict_def)

lemma stray_response_decoded:
  "from_json late_json 12 stray_response_text
     = Return \<lparr>type = RESPONSE, action = JStr '''', payload = JObj [],
               message_id = JStr '''', timestamp = JNum 12, device_id = JStr '''',
               correlation_id = JStr ''ffff0000''\<rparr>"
  by (simp add: from_json_def late_json_def table_json_def dict_get_def MessageType_members_def
      click_d1_text_def stray_response_text_def late_response_text_def)

theorem send_command_timeout_witness:
  "get_conn comm1 ''d1'' = Some (0, conn1) \<and> websocket conn1 = Some 0
   \<and> next_future comm1 \<notin> set (registered_futures comm1)
   \<and> send_command_begin late_json 10 comm1 ''d1'' ''click'' click_params (Some 5)
       = (comm_click, Inr (click_call\<lparr>call_deadline := 15\<rparr>))
   \<and> from_json late_json 12 stray_response_text
       = Return \<lparr>type = RESPONSE, action = JStr '''', payload = JObj [],
                 message_id = JStr '''', timestamp = JNum 12, device_id = JStr '''',
                 correlation_id = JStr ''ffff0000''\<rparr>
   \<and> pending_entry comm_click 0 ''1a2b3c4d'' = Some 0
   \<and> snd (send_command_resume 14
            (handle_messages late_json comm_click [(12, ''d1'', stray_response_text)])
            (click_call\<lparr>call_deadline := 15\<rparr>)) = None
   \<and> snd (send_command_resume 15
            (handle_messages late_json comm_click [(12, ''d1'', stray_response_text)])
            (click_call\<lparr>call_deadline := 15\<rparr>)) = Some CommandTimeout
   \<and> pending_entry
        (fst (send_command_resume 15
                (handle_messages late_json comm_click [(12, ''d1'', stray_response_text)])
                (click_call\<lparr>call_deadline := 15\<rparr>))) 0 ''1a2b3c4d'' = None"
proof -
  let ?msgs = "[(12::real, ''d1'', stray_response_text)]"
  let ?c = "click_call\<lparr>call_deadline := 15\<rparr>"
  have s: "websocket conn1 = Some 0" by (simp add: conn1_def)
  note t = send_command_timeout [OF get_conn_comm1 s, where J = late_json and now = 10
      and act = "''click''" and params = click_params and timeout = "Some 5"]
  have u: "uuid4 comm1 (uuid_drawn comm1) = ''1a2b3c4d''" "next_future comm1 = 0"
    by (simp_all add: comm1_def comm0_def connect_def DeviceCommunication_init_def
        update_status_def emit_event_def log_append_def Let_def example_uuids_def)
  note t1 = t [unfolded send_command_begin_five prod.case sum.case]
  from t1 [THEN conjunct1, THEN conjunct2, THEN conjunct2, THEN conjunct1]
  have a: "pending_entry comm_click 0 ''1a2b3c4d'' = Some 0"
    by (simp add: u)
  have quiet: "\<forall>msg \<in> set ?msgs.
                 case from_json late_json (fst msg) (snd (snd msg)) of
                   Raise e \<Rightarrow> True
                 | Return m \<Rightarrow>
                     type m = RESPONSE
                     \<longrightarrow> correlation_id m \<noteq> JStr (uuid4 comm1 (uuid_drawn comm1))"
    by (simp add: stray_response_decoded u)
  note l0 = t1 [THEN conjunct1, THEN conjunct2, THEN conjunct2, THEN conjunct2, THEN mp,
      OF comm1_fresh]
  note l = l0 [THEN spec, THEN spec, THEN mp, OF quiet]
  from l [of 14]
  have b: "snd (send_command_resume 14 (handle_messages late_json comm_click ?msgs) ?c) = None"
    by (simp del: handle_messages.simps)
  from l [of 15]
  have c: "snd (send_command_resume 15 (handle_messages late_json comm_click ?msgs) ?c)
             = Some CommandTimeout"
    by (simp del: handle_messages.simps)
  have f: "call_conn ?c = 0" "call_message_id ?c = ''1a2b3c4d''"
    by (simp_all add: click_call_def)
  from c have n: "snd (send_command_resume 15 (handle_messages late_json comm_click ?msgs) ?c)
             \<noteq> None"
    by (simp del: handle_messages.simps)
  from t1 [THEN conjunct2, THEN conjunct2, THEN spec, THEN spec, THEN spec, THEN mp, OF n] f
  have e:
    "pending_entry
       (fst (send_command_resume 15 (handle_messages late_json comm_click ?msgs) ?c))
       0 ''1a2b3c4d'' = None"
    by (simp del: handle_messages.simps)
  show ?thesis
    using get_conn_comm1 s comm1_fresh send_command_begin_five stray_response_decoded a b c e
    by (simp del: handle_messages.simps)
qed

end
